theory Spec2Isabelle
  imports Complex_Main
begin

section \<open>Values shared by the fitting set-up functions\<close>

text \<open>
  The set-up script \<^verbatim>\<open>sps_fitsetup.py\<close> works on numpy floats. They are modelled as
  real numbers. Two float values that the script itself creates from real inputs are kept:
  the infinities written into the limits of the continuum row (type \<open>bound\<close>), and the
  not-a-number that \<^verbatim>\<open>np.mean\<close> and \<^verbatim>\<open>np.std\<close> return on an empty slice (\<open>None\<close> in
  an \<open>option\<close>). Exceptions are values of \<open>py_error\<close> on the left of a sum.
\<close>

datatype py_error =
    KeyError string
  | IndexError
  | ValueError
  | UnboundLocalError string

datatype bound = NegInf | Fin real | PosInf

fun ble :: "bound \<Rightarrow> bound \<Rightarrow> bool" where
  "ble NegInf b = True"
| "ble a PosInf = True"
| "ble (Fin a) (Fin b) = (a \<le> b)"
| "ble a b = False"

subsection \<open>numpy helpers\<close>

text \<open>\<^verbatim>\<open>np.mean\<close> and \<^verbatim>\<open>np.std\<close> (population standard deviation); nan on an empty slice.\<close>

definition np_mean :: "real list \<Rightarrow> real option" where
  "np_mean xs = (if xs = [] then None else Some (sum_list xs / real (length xs)))"

definition np_std :: "real list \<Rightarrow> real option" where
  "np_std xs =
     (case np_mean xs of
        None \<Rightarrow> None
      | Some m \<Rightarrow> Some (sqrt (sum_list (map (\<lambda>v. (v - m)\<^sup>2) xs) / real (length xs))))"

text \<open>\<^verbatim>\<open>np.mean([a, b])\<close> of two statistics: nan as soon as one of them is nan.\<close>

definition mean2 :: "real option \<Rightarrow> real option \<Rightarrow> real option" where
  "mean2 a b =
     (case a of
        None \<Rightarrow> None
      | Some u \<Rightarrow> (case b of None \<Rightarrow> None | Some v \<Rightarrow> Some ((u + v) / 2)))"

text \<open>Boolean-mask indexing \<^verbatim>\<open>arr[mask]\<close> and mask assignment \<^verbatim>\<open>arr[mask] = values\<close>.\<close>

definition select :: "bool list \<Rightarrow> 'a list \<Rightarrow> 'a list" where
  "select msk xs = map snd (filter fst (zip msk xs))"

fun put_mask :: "bool list \<Rightarrow> real list \<Rightarrow> real list \<Rightarrow> real list" where
  "put_mask (m # ms) vs (a # as) =
     (if m then (case vs of [] \<Rightarrow> a # put_mask ms [] as | v # vs' \<Rightarrow> v # put_mask ms vs' as)
      else a # put_mask ms vs as)"
| "put_mask ms vs as = as"

definition window_mask :: "real list \<Rightarrow> real \<Rightarrow> real \<Rightarrow> bool list" where
  "window_mask ws lo hi = map (\<lambda>w. lo \<le> w \<and> w \<le> hi) ws"

text \<open>\<^verbatim>\<open>np.where(ws == v)[0][0]\<close>: the first position holding \<open>v\<close>, IndexError when none.\<close>

fun where_first :: "real list \<Rightarrow> real \<Rightarrow> nat \<Rightarrow> py_error + nat" where
  "where_first [] v i = Inl IndexError"
| "where_first (w # ws) v i = (if w = v then Inr i else where_first ws v (Suc i))"

text \<open>
  \<^verbatim>\<open>np.interp(q, np.arange(len(fp)), fp)\<close>: linear interpolation over the index grid,
  constant outside it, ValueError on an empty grid.
\<close>

definition np_interp :: "real \<Rightarrow> real list \<Rightarrow> py_error + real" where
  "np_interp q fp =
     (if fp = [] then Inl ValueError
      else if q \<le> 0 then Inr (fp ! 0)
      else if real (length fp - 1) \<le> q then Inr (fp ! (length fp - 1))
      else (let j = nat \<lfloor>q\<rfloor>
            in Inr ((fp ! Suc j - fp ! j) * (q - real j) + fp ! j)))"

section \<open>Emission line preliminary analysis\<close>

record emline =
  em_wavelength :: "real option list"
  em_components :: string

record line_rec =
  line :: string
  restframe_wavelength :: real
  observed_wavelength :: real
  peak_flux :: real

record matched = line_rec +
  peak_idx :: nat

record resolved = line_rec +
  fwhm :: real

subsection \<open>Prominent local maxima\<close>

text \<open>
  \<^verbatim>\<open>scipy.signal.find_peaks(window_flux, prominence=0.5)\<close> is library code, not part of
  the repository. It is modelled from its documented behaviour. A local maximum is a run
  of equal samples \<open>l..r\<close> with a strictly lower sample on each side; the first and the
  last sample are never maxima; a flat maximum is reported at its middle, rounded down;
  maxima are reported in increasing position. The prominence of a maximum is its height
  above the higher of two minima: the lowest sample on the way left, and the lowest on
  the way right, up to the first sample strictly above the maximum or the end of the
  signal. \<^verbatim>\<open>prominence=0.5\<close> keeps the maxima whose prominence is at least 0.5.
\<close>

definition flat_peak :: "real list \<Rightarrow> nat \<Rightarrow> nat \<Rightarrow> bool" where
  "flat_peak f l r =
     (0 < l \<and> l \<le> r \<and> Suc r < length f \<and> f ! (l - 1) < f ! l
      \<and> list_all (\<lambda>j. f ! j = f ! l) [l..<Suc r] \<and> f ! Suc r < f ! l)"

definition local_maxima :: "real list \<Rightarrow> nat list" where
  "local_maxima f =
     concat (map (\<lambda>l. map (\<lambda>r. (l + r) div 2) (filter (flat_peak f l) [l..<length f]))
               [0..<length f])"

definition prominence :: "real list \<Rightarrow> nat \<Rightarrow> real" where
  "prominence f p =
     (let left_min = fold min (takeWhile (\<lambda>v. v \<le> f ! p) (rev (take p f))) (f ! p);
          right_min = fold min (takeWhile (\<lambda>v. v \<le> f ! p) (drop (Suc p) f)) (f ! p)
      in f ! p - max left_min right_min)"

definition find_peaks :: "real list \<Rightarrow> real \<Rightarrow> nat list" where
  "find_peaks f pmin = filter (\<lambda>p. pmin \<le> prominence f p) (local_maxima f)"

subsection \<open>First loop of \<^verbatim>\<open>analyze_emission_lines\<close>: one candidate per catalog entry\<close>

text \<open>
  The loop over \<^verbatim>\<open>peaks\<close> (source lines 62 to 74). \<open>closest_peak_idx\<close> starts as
  \<open>None\<close>; \<open>min_diff\<close> starts as infinity, written \<open>None\<close>.
\<close>

fun closest_peak ::
  "real list \<Rightarrow> real \<Rightarrow> nat list \<Rightarrow> nat option \<Rightarrow> real option \<Rightarrow> py_error + nat option" where
  "closest_peak window_wavelengths rest [] closest_peak_idx min_diff = Inr closest_peak_idx"
| "closest_peak window_wavelengths rest (p # peaks) closest_peak_idx min_diff =
     (if p < length window_wavelengths then
        (let diff = \<bar>window_wavelengths ! p - rest\<bar>
         in if (case min_diff of None \<Rightarrow> True | Some d \<Rightarrow> diff < d)
            then closest_peak window_wavelengths rest peaks (Some p) (Some diff)
            else closest_peak window_wavelengths rest peaks closest_peak_idx min_diff)
      else Inl IndexError)"

text \<open>
  The body of the loop over \<^verbatim>\<open>lines_dict.items()\<close> (source lines 42 to 85) for one
  entry. Applying the mask of \<open>x\<close> to a \<open>y\<close> of another length raises IndexError.
  The result is the dictionary to append, if any.
\<close>

definition match_line ::
  "real list \<Rightarrow> real list \<Rightarrow> real \<Rightarrow> string \<Rightarrow> emline \<Rightarrow> py_error + matched option" where
  "match_line x y window name params =
     (case em_wavelength params of
        [] \<Rightarrow> Inl IndexError
      | None # _ \<Rightarrow> Inr None
      | Some rest_wavelength # _ \<Rightarrow>
          if length x \<noteq> length y then Inl IndexError
          else
            (let lower_bound = rest_wavelength - window;
                 upper_bound = rest_wavelength + window;
                 mask = window_mask x lower_bound upper_bound;
                 window_flux = select mask y;
                 window_wavelengths = select mask x
             in if window_wavelengths = [] then Inr None
                else
                  (case closest_peak window_wavelengths rest_wavelength
                          (find_peaks window_flux 0.5) None None of
                     Inl e \<Rightarrow> Inl e
                   | Inr None \<Rightarrow> Inr None
                   | Inr (Some k) \<Rightarrow>
                       (case where_first x (window_wavelengths ! k) 0 of
                          Inl e \<Rightarrow> Inl e
                        | Inr i \<Rightarrow>
                            Inr (Some \<lparr>line = name,
                                       restframe_wavelength = rest_wavelength,
                                       observed_wavelength = window_wavelengths ! k,
                                       peak_flux = window_flux ! k,
                                       peak_idx = i\<rparr>)))))"

fun matched_loop ::
  "real list \<Rightarrow> real list \<Rightarrow> real \<Rightarrow> (string \<times> emline) list \<Rightarrow> matched list
     \<Rightarrow> py_error + matched list" where
  "matched_loop x y window [] matched_lines = Inr matched_lines"
| "matched_loop x y window ((name, params) # items) matched_lines =
     (case match_line x y window name params of
        Inl e \<Rightarrow> Inl e
      | Inr None \<Rightarrow> matched_loop x y window items matched_lines
      | Inr (Some m) \<Rightarrow> matched_loop x y window items (matched_lines @ [m]))"

subsection \<open>Second loop: widths, masking windows and the synthetic continuum\<close>

text \<open>
  The locals of one iteration (source lines 90 to 97). \<open>peak_widths\<close> stands for
  \<^verbatim>\<open>scipy.signal.peak_widths(flux, [peak_idx], rel_height=0.5)\<close> and returns the
  pair \<open>(widths[0], left_ips[0])\<close>.
\<close>

record extent =
  ext_fwhm :: real
  ext_sigma :: real
  line_start :: real
  line_end :: real

definition line_extent ::
  "real list \<Rightarrow> real list \<Rightarrow> (real list \<Rightarrow> nat \<Rightarrow> real \<times> real) \<Rightarrow> matched
     \<Rightarrow> py_error + extent" where
  "line_extent x y peak_widths l =
     (case peak_widths y (peak_idx l) of
        (widths, left_ips) \<Rightarrow>
          (case np_interp (left_ips + widths) x of
             Inl e \<Rightarrow> Inl e
           | Inr hi \<Rightarrow>
               (case np_interp left_ips x of
                  Inl e \<Rightarrow> Inl e
                | Inr lo \<Rightarrow>
                    (let fwhm0 = hi - lo;
                         sigma = fwhm0 / 2.355
                     in Inr \<lparr>ext_fwhm = fwhm0,
                             ext_sigma = sigma,
                             line_start = observed_wavelength l - fwhm0 / 2 - 3 * sigma,
                             line_end = observed_wavelength l + fwhm0 / 2 + 3 * sigma\<rparr>))))"

text \<open>
  The state of the second loop: \<open>results\<close>, \<open>continuum_mask\<close> and \<open>synthetic_flux\<close>.
  \<open>normal scale size\<close> stands for \<^verbatim>\<open>np.random.normal(0.0, scale, size)\<close>.
\<close>

record analysis =
  results :: "resolved list"
  continuum_mask :: "bool list"
  synthetic_flux :: "real list"

definition mask_line ::
  "real list \<Rightarrow> real list \<Rightarrow> (real list \<Rightarrow> nat \<Rightarrow> real \<times> real) \<Rightarrow> (real \<Rightarrow> nat \<Rightarrow> real list)
     \<Rightarrow> matched \<Rightarrow> analysis \<Rightarrow> py_error + analysis" where
  "mask_line x y peak_widths normal l st =
     (case line_extent x y peak_widths l of
        Inl e \<Rightarrow> Inl e
      | Inr ext \<Rightarrow>
          (let mask = window_mask x (line_start ext) (line_end ext);
               valid_flux = select (map Not mask) y
           in Inr \<lparr>results = results st @
                       [\<lparr>line = line l,
                         restframe_wavelength = restframe_wavelength l,
                         observed_wavelength = observed_wavelength l,
                         peak_flux = peak_flux l,
                         fwhm = ext_fwhm ext\<rparr>],
                   continuum_mask = map2 (\<lambda>c m. c \<and> \<not> m) (continuum_mask st) mask,
                   synthetic_flux =
                     (if True \<in> set mask then
                        (case np_std valid_flux of
                           Some std_flux \<Rightarrow>
                             put_mask mask (normal (0.1 * std_flux) (length (filter id mask)))
                               (synthetic_flux st)
                         | None \<Rightarrow>
                             put_mask mask (replicate (length mask) 0) (synthetic_flux st))
                      else synthetic_flux st)\<rparr>))"

fun mask_loop ::
  "real list \<Rightarrow> real list \<Rightarrow> (real list \<Rightarrow> nat \<Rightarrow> real \<times> real) \<Rightarrow> (real \<Rightarrow> nat \<Rightarrow> real list)
     \<Rightarrow> matched list \<Rightarrow> analysis \<Rightarrow> py_error + analysis" where
  "mask_loop x y peak_widths normal [] st = Inr st"
| "mask_loop x y peak_widths normal (l # ls) st =
     (case mask_line x y peak_widths normal l st of
        Inl e \<Rightarrow> Inl e
      | Inr st' \<Rightarrow> mask_loop x y peak_widths normal ls st')"

text \<open>
  The state at the end of \<^verbatim>\<open>analyze_emission_lines\<close>, and the triple it returns:
  \<open>results\<close>, the standard deviation of the synthetic flux and the two-column
  continuum spectrum. \<open>continuum_mask\<close> is a local of the function.
  \<^verbatim>\<open>np.column_stack\<close> raises ValueError on columns of different lengths.
\<close>

definition analyze_state ::
  "real list \<Rightarrow> real list \<Rightarrow> (string \<times> emline) list \<Rightarrow> real
     \<Rightarrow> (real list \<Rightarrow> nat \<Rightarrow> real \<times> real) \<Rightarrow> (real \<Rightarrow> nat \<Rightarrow> real list)
     \<Rightarrow> py_error + analysis" where
  "analyze_state x y lines_dict window peak_widths normal =
     (case matched_loop x y window lines_dict [] of
        Inl e \<Rightarrow> Inl e
      | Inr matched_lines \<Rightarrow>
          mask_loop x y peak_widths normal matched_lines
            \<lparr>results = [], continuum_mask = replicate (length y) True, synthetic_flux = y\<rparr>)"

definition analyze_emission_lines ::
  "real list \<Rightarrow> real list \<Rightarrow> (string \<times> emline) list \<Rightarrow> real
     \<Rightarrow> (real list \<Rightarrow> nat \<Rightarrow> real \<times> real) \<Rightarrow> (real \<Rightarrow> nat \<Rightarrow> real list)
     \<Rightarrow> py_error + (resolved list \<times> real option \<times> (real \<times> real) list)" where
  "analyze_emission_lines x y lines_dict window peak_widths normal =
     (case analyze_state x y lines_dict window peak_widths normal of
        Inl e \<Rightarrow> Inl e
      | Inr st \<Rightarrow>
          if length x \<noteq> length (synthetic_flux st) then Inl ValueError
          else Inr (results st, np_std (synthetic_flux st), zip x (synthetic_flux st)))"

section \<open>Significance filter\<close>

record filtered =
  name :: string
  wavelength :: real
  sigma :: real
  min_loc :: real
  max_loc :: real
  min_sd :: real
  max_sd :: real
  max_flux :: real
  SNR :: "real option"

text \<open>The two side windows of \<^verbatim>\<open>filter_and_prepare_linelist\<close>, flux column.\<close>

definition window_left :: "(real \<times> real) list \<Rightarrow> real \<Rightarrow> real \<Rightarrow> real list" where
  "window_left continuum_spec0 lineloc_min window_width =
     map snd (filter (\<lambda>s. fst s \<le> lineloc_min \<and> fst s \<ge> lineloc_min - window_width)
                continuum_spec0)"

definition window_right :: "(real \<times> real) list \<Rightarrow> real \<Rightarrow> real \<Rightarrow> real list" where
  "window_right continuum_spec0 lineloc_max window_width =
     map snd (filter (\<lambda>s. fst s \<le> lineloc_max + window_width \<and> fst s \<ge> lineloc_max)
                continuum_spec0)"

definition sigma_max_of :: "real \<Rightarrow> real" where
  "sigma_max_of line_fwhm = line_fwhm / (2.0 * sqrt (2.0 * ln 2.0))"

definition local_std_of :: "(real \<times> real) list \<Rightarrow> real \<Rightarrow> resolved \<Rightarrow> real option" where
  "local_std_of continuum_spec0 window_width l =
     (let sigma_max = sigma_max_of (fwhm l);
          lineloc_min = observed_wavelength l - 2 * sigma_max;
          lineloc_max = observed_wavelength l + 2 * sigma_max
      in mean2 (np_std (window_left continuum_spec0 lineloc_min window_width))
               (np_std (window_right continuum_spec0 lineloc_max window_width)))"

definition local_mean_of :: "(real \<times> real) list \<Rightarrow> real \<Rightarrow> resolved \<Rightarrow> real option" where
  "local_mean_of continuum_spec0 window_width l =
     (let sigma_max = sigma_max_of (fwhm l);
          lineloc_min = observed_wavelength l - 2 * sigma_max;
          lineloc_max = observed_wavelength l + 2 * sigma_max
      in mean2 (np_mean (window_left continuum_spec0 lineloc_min window_width))
               (np_mean (window_right continuum_spec0 lineloc_max window_width)))"

text \<open>
  Source line 153: \<^verbatim>\<open>(line_flux - local_mean) / local_std if local_std > 0 else snr_ext\<close>.
  A nan \<open>local_std\<close> fails the comparison and takes the \<^verbatim>\<open>else\<close> branch.
\<close>

definition snr_of :: "(real \<times> real) list \<Rightarrow> real \<Rightarrow> real \<Rightarrow> resolved \<Rightarrow> real option" where
  "snr_of continuum_spec0 window_width snr_ext l =
     (case local_std_of continuum_spec0 window_width l of
        None \<Rightarrow> Some snr_ext
      | Some local_std \<Rightarrow>
          if local_std > 0 then
            (case local_mean_of continuum_spec0 window_width l of
               None \<Rightarrow> None
             | Some local_mean \<Rightarrow> Some ((peak_flux l - local_mean) / local_std))
          else Some snr_ext)"

definition line_details :: "(real \<times> real) list \<Rightarrow> real \<Rightarrow> real \<Rightarrow> resolved \<Rightarrow> filtered" where
  "line_details continuum_spec0 window_width snr_ext l =
     (let sigma_max = sigma_max_of (fwhm l)
      in \<lparr>name = line l,
          wavelength = observed_wavelength l,
          sigma = sigma_max,
          min_loc = observed_wavelength l - 2 * sigma_max,
          max_loc = observed_wavelength l + 2 * sigma_max,
          min_sd = 2.0,
          max_sd = 1.5 * sigma_max,
          max_flux = peak_flux l,
          SNR = snr_of continuum_spec0 window_width snr_ext l\<rparr>)"

fun filter_and_prepare_linelist ::
  "resolved list \<Rightarrow> (real \<times> real) list \<Rightarrow> real \<times> real \<Rightarrow> real \<Rightarrow> real \<Rightarrow> filtered list" where
  "filter_and_prepare_linelist [] continuum_spec0 wavelength_range snr_ext window_width = []"
| "filter_and_prepare_linelist (l # ls) continuum_spec0 wavelength_range snr_ext window_width =
     (let three_sigma = 3 * snr_ext;
          rest = filter_and_prepare_linelist ls continuum_spec0 wavelength_range snr_ext
                   window_width
      in if fst wavelength_range \<le> observed_wavelength l
            \<and> observed_wavelength l \<le> snd wavelength_range
         then
           (if (case snr_of continuum_spec0 window_width snr_ext l of
                  None \<Rightarrow> False
                | Some snr \<Rightarrow> snr \<ge> snr_ext)
               \<or> peak_flux l > three_sigma
            then line_details continuum_spec0 window_width snr_ext l # rest
            else rest)
         else rest)"

section \<open>The parameter table\<close>

record row =
  line_name :: string
  model :: string
  component :: int
  parameters :: "real list"
  max_limits :: "bound list option"
  min_limits :: "bound list option"

text \<open>
  A data frame is its rows, in order, each under its index label, and the column
  \<^verbatim>\<open>'Parameter Errors'\<close> when the frame has one. Labels are integers; a frame built
  without an index, or concatenated with \<^verbatim>\<open>ignore_index=True\<close>, has the labels
  \<open>0, 1, \<dots>\<close> in order. A cell that the frame fills with nan because the row came
  without that column is \<open>None\<close>.
\<close>

type_synonym frame = "(int \<times> row) list"

record dataframe =
  df_frame :: frame
  parameter_errors :: "real list list option"

definition df_rows :: "dataframe \<Rightarrow> row list" where
  "df_rows df = map snd (df_frame df)"

definition df_index :: "dataframe \<Rightarrow> int list" where
  "df_index df = map fst (df_frame df)"

definition default_index :: "nat \<Rightarrow> int list" where
  "default_index n = map int [0..<n]"

definition reset_index :: "row list \<Rightarrow> frame" where
  "reset_index rows = zip (default_index (length rows)) rows"

subsection \<open>\<^verbatim>\<open>initial_dataframe\<close>\<close>

text \<open>
  \<^verbatim>\<open>params_i\<close>, \<^verbatim>\<open>max_i\<close> and \<^verbatim>\<open>min_i\<close> are assigned together, in one of the three
  branches; before the first assignment they are unbound (\<open>None\<close>), and a component that
  matches no branch leaves them as the previous iteration set them.
\<close>

type_synonym loop_vars = "(real list \<times> bound list \<times> bound list) option"

text \<open>The \<^verbatim>\<open>if\<close>/\<^verbatim>\<open>elif\<close> chain of source lines 208 to 220.\<close>

definition component_vars :: "filtered \<Rightarrow> nat \<Rightarrow> string \<Rightarrow> loop_vars \<Rightarrow> loop_vars" where
  "component_vars l Ncomp c vars =
     (if c = ''Voigt'' then
        Some ([wavelength l, max_flux l / real Ncomp, sigma l, 1.11 * sigma l],
              [Fin (max_loc l), Fin (max_flux l), Fin (max_sd l), Fin (1.11 * max_sd l)],
              [Fin (min_loc l), Fin 0, Fin (min_sd l), Fin (1.11 * min_sd l)])
      else if c = ''Gaussian'' then
        Some ([wavelength l, max_flux l / real Ncomp, sigma l],
              [Fin (max_loc l), Fin (max_flux l), Fin (max_sd l)],
              [Fin (min_loc l), Fin 0, Fin (min_sd l)])
      else if c = ''Lorentzian'' then
        Some ([wavelength l, max_flux l / real Ncomp, 1.11 * sigma l],
              [Fin (max_loc l), Fin (max_flux l), Fin (1.11 * max_sd l)],
              [Fin (min_loc l), Fin 0, Fin (1.11 * min_sd l)])
      else vars)"

definition table_row :: "string \<Rightarrow> string \<Rightarrow> int \<Rightarrow> real list \<Rightarrow> bound list \<Rightarrow> bound list \<Rightarrow> row" where
  "table_row nm c n params_i max_i min_i =
     \<lparr>line_name = nm, model = c, component = n, parameters = params_i,
      max_limits = Some max_i, min_limits = Some min_i\<rparr>"

fun component_loop ::
  "filtered \<Rightarrow> nat \<Rightarrow> nat \<Rightarrow> string list \<Rightarrow> loop_vars \<Rightarrow> row list
     \<Rightarrow> py_error + (loop_vars \<times> row list)" where
  "component_loop l Ncomp j [] vars rows = Inr (vars, rows)"
| "component_loop l Ncomp j (c # cs) vars rows =
     (case component_vars l Ncomp c vars of
        None \<Rightarrow> Inl (UnboundLocalError ''params_i'')
      | Some (params_i, max_i, min_i) \<Rightarrow>
          component_loop l Ncomp (Suc j) cs (Some (params_i, max_i, min_i))
            (rows @ [table_row (name l) c (int j + 1) params_i max_i min_i]))"

fun lines_loop ::
  "(string \<times> emline) list \<Rightarrow> filtered list \<Rightarrow> loop_vars \<Rightarrow> row list \<Rightarrow> py_error + row list" where
  "lines_loop emlines_dict [] vars rows = Inr rows"
| "lines_loop emlines_dict (l # ls) vars rows =
     (case map_of emlines_dict (name l) of
        None \<Rightarrow> Inl (KeyError (name l))
      | Some entry \<Rightarrow>
          (let components = [em_components entry];
               Ncomp = length components
           in case component_loop l Ncomp 0 components vars rows of
                Inl e \<Rightarrow> Inl e
              | Inr (vars', rows') \<Rightarrow> lines_loop emlines_dict ls vars' rows'))"

definition continuum_row :: "real list \<Rightarrow> row" where
  "continuum_row continuum_pars =
     \<lparr>line_name = ''Continuum'',
      model = ''Continuum'',
      component = 0,
      parameters = continuum_pars,
      max_limits = Some [PosInf, PosInf, PosInf],
      min_limits = Some [Fin 0, Fin 0, Fin 0]\<rparr>"

definition initial_dataframe ::
  "(string \<times> emline) list \<Rightarrow> filtered list \<Rightarrow> real list option \<Rightarrow> py_error + dataframe" where
  "initial_dataframe emlines_dict filtered_linelist continuum_pars =
     (case lines_loop emlines_dict filtered_linelist None [] of
        Inl e \<Rightarrow> Inl e
      | Inr rows \<Rightarrow>
          Inr \<lparr>df_frame = reset_index (case continuum_pars of
                                          None \<Rightarrow> rows
                                        | Some pars \<Rightarrow> rows @ [continuum_row pars]),
               parameter_errors = None\<rparr>)"

subsection \<open>\<^verbatim>\<open>minmaxlim\<close>\<close>

text \<open>
  \<^verbatim>\<open>2**(ncomp-1)\<close> on the float column \<^verbatim>\<open>'Component'\<close> (the continuum row stores
  \<^verbatim>\<open>0.0\<close>): a negative exponent gives a fraction.
\<close>

definition pow2 :: "int \<Rightarrow> real" where
  "pow2 k = (if 0 \<le> k then 2 ^ nat k else 1 / 2 ^ nat (- k))"

text \<open>\<^verbatim>\<open>df[df['Line Name'] == l].shape[0]\<close>: how many rows the line has.\<close>

definition line_rows :: "row list \<Rightarrow> string \<Rightarrow> nat" where
  "line_rows df l = length (filter (\<lambda>r'. line_name r' = l) df)"

definition amplitude_factor :: "row list \<Rightarrow> row \<Rightarrow> real" where
  "amplitude_factor df r =
     (let ncomp = component r
      in if ncomp = 1 then
           (if line_rows df (line_name r) > 1 then 2 else 1)
         else if ncomp = 2 then 2
         else pow2 (ncomp - 1))"

text \<open>\<^verbatim>\<open>min_i\<close> and \<^verbatim>\<open>max_i\<close>: unbound before the first assignment, kept otherwise.\<close>

type_synonym lim_vars = "(bound list \<times> bound list) option"

text \<open>The body of the loop over the rows, source lines 293 to 337.\<close>

definition row_limits :: "row list \<Rightarrow> row \<Rightarrow> lim_vars \<Rightarrow> lim_vars" where
  "row_limits df r vars =
     (let sigma' = parameters r ! 2;
          minsig = 2.0;
          maxsig = 1.5 * sigma';
          line_wavelength = parameters r ! 0;
          min_line = line_wavelength - 2 * sigma';
          max_line = line_wavelength + 2 * sigma';
          amplitude = parameters r ! 1;
          factor = amplitude_factor df r
      in if model r = ''Gaussian'' then
           Some ([Fin min_line, Fin 0, Fin minsig],
                 [Fin max_line, Fin (amplitude * factor), Fin maxsig])
         else if model r = ''Lorentzian'' then
           Some ([Fin min_line, Fin 0, Fin (1.11 * minsig)],
                 [Fin max_line, Fin (amplitude * factor), Fin (1.11 * maxsig)])
         else if model r = ''Voigt'' then
           Some ([Fin min_line, Fin 0, Fin minsig, Fin (1.11 * minsig)],
                 [Fin max_line, Fin (amplitude * factor), Fin maxsig, Fin (1.11 * maxsig)])
         else if model r = ''Continuum'' then
           Some ([NegInf, Fin 0, NegInf], [PosInf, PosInf, PosInf])
         else vars)"

text \<open>
  The three reads \<^verbatim>\<open>row['Parameters'][2]\<close>, \<^verbatim>\<open>[0]\<close> and \<^verbatim>\<open>[1]\<close> raise IndexError
  on a vector of fewer than three entries; the appends of source lines 339 and 340 raise
  UnboundLocalError while \<^verbatim>\<open>min_i\<close> is unbound.
\<close>

fun minmax_loop ::
  "row list \<Rightarrow> row list \<Rightarrow> lim_vars \<Rightarrow> bound list list \<Rightarrow> bound list list
     \<Rightarrow> py_error + (bound list list \<times> bound list list)" where
  "minmax_loop df [] vars min_limits' max_limits' = Inr (min_limits', max_limits')"
| "minmax_loop df (r # rs) vars min_limits' max_limits' =
     (if length (parameters r) < 3 then Inl IndexError
      else
        (case row_limits df r vars of
           None \<Rightarrow> Inl (UnboundLocalError ''min_i'')
         | Some (min_i, max_i) \<Rightarrow>
             minmax_loop df rs (Some (min_i, max_i))
               (min_limits' @ [min_i]) (max_limits' @ [max_i])))"

definition minmaxlim :: "row list \<Rightarrow> py_error + (bound list list \<times> bound list list)" where
  "minmaxlim df = minmax_loop df df None [] []"

subsection \<open>\<^verbatim>\<open>update_components\<close>\<close>

text \<open>
  A positional slice \<^verbatim>\<open>df[:k]\<close> or \<^verbatim>\<open>df[k:]\<close> of a frame of \<open>n\<close> rows cuts at
  this position: \<open>k\<close> itself when it is within range, counted from the end when it is
  negative.
\<close>

definition slice_pos :: "int \<Rightarrow> nat \<Rightarrow> nat" where
  "slice_pos k n = (if 0 \<le> k then min (nat k) n else nat (max 0 (int n + k)))"

text \<open>
  One addition (source lines 364 to 380). \<^verbatim>\<open>last_index\<close> is the index label of the
  last row of the line. \<^verbatim>\<open>.loc[last_index, _]\<close> reads the row under that label: it is
  that same row when the label is unique; when several rows carry the label it yields a
  series, and reading entries 0 and 1 of the series of parameter vectors raises KeyError.
  The two slices of source line 377 use the label as a position, and the concatenation
  numbers the rows again.
\<close>

definition add_component :: "frame \<Rightarrow> string \<Rightarrow> string list \<Rightarrow> py_error + frame" where
  "add_component updated_df l components =
     (if l \<in> set (map (\<lambda>lr. line_name (snd lr)) updated_df) then
        (case components of
           [] \<Rightarrow> Inl IndexError
         | c0 # _ \<Rightarrow>
             (let hit = last (filter (\<lambda>lr. line_name (snd lr) = l) updated_df);
                  last_index = fst hit
              in if 1 < length (filter (\<lambda>lr. fst lr = last_index) updated_df)
                 then Inl (KeyError (if last_index = 0 then ''1'' else ''0''))
                 else
                   (let new_component_number = component (snd hit) + 1;
                        new_parameters = parameters (snd hit)
                    in if length new_parameters < 3 then Inl IndexError
                       else
                         (let new_parameters' =
                                [new_parameters ! 0, new_parameters ! 1 / 2,
                                 new_parameters ! 2];
                              new_row = \<lparr>line_name = l,
                                         model = c0,
                                         component = new_component_number,
                                         parameters = new_parameters',
                                         max_limits = None,
                                         min_limits = None\<rparr>;
                              k = slice_pos (last_index + 1) (length updated_df)
                          in Inr (reset_index
                                    (map snd (take k updated_df) @ [new_row]
                                       @ map snd (drop k updated_df)))))))
      else Inr updated_df)"

fun additions_loop :: "frame \<Rightarrow> (string \<times> string list) list \<Rightarrow> py_error + frame" where
  "additions_loop updated_df [] = Inr updated_df"
| "additions_loop updated_df ((l, components) # items) =
     (case add_component updated_df l components of
        Inl e \<Rightarrow> Inl e
      | Inr updated_df' \<Rightarrow> additions_loop updated_df' items)"

text \<open>
  \<^verbatim>\<open>updated_df['Max Limits'] = pd.Series(max_limits)\<close> aligns on the index: the row
  under label \<open>i\<close> receives entry \<open>i\<close> of the list, and nan when the list has no such
  entry.
\<close>

definition series_at :: "'a list \<Rightarrow> int \<Rightarrow> 'a option" where
  "series_at values i = (if 0 \<le> i \<and> nat i < length values then Some (values ! nat i) else None)"

definition set_limits :: "frame \<Rightarrow> bound list list \<Rightarrow> bound list list \<Rightarrow> frame" where
  "set_limits updated_df mins maxs =
     map (\<lambda>lr. (fst lr, (snd lr)\<lparr>max_limits := series_at maxs (fst lr),
                                 min_limits := series_at mins (fst lr)\<rparr>))
       updated_df"

definition update_components ::
  "dataframe \<Rightarrow> (string \<times> string list) list \<Rightarrow> py_error + dataframe" where
  "update_components dfparams additional_components_dict =
     (case parameter_errors dfparams of
        None \<Rightarrow> Inl (KeyError ''Parameter Errors'')
      | Some _ \<Rightarrow>
          (case additions_loop (df_frame dfparams) additional_components_dict of
             Inl e \<Rightarrow> Inl e
           | Inr updated_df \<Rightarrow>
               (case minmaxlim (map snd updated_df) of
                  Inl e \<Rightarrow> Inl e
                | Inr (mins, maxs) \<Rightarrow>
                    Inr \<lparr>df_frame = set_limits updated_df mins maxs,
                         parameter_errors = None\<rparr>)))"

section \<open>The bounds invariant\<close>

text \<open>
  A row respects its bounds when the three vectors have the same length and every
  parameter lies between its two limits.
\<close>

definition vector_within :: "bound list \<Rightarrow> real list \<Rightarrow> bound list \<Rightarrow> bool" where
  "vector_within mn p mx =
     (list_all2 (\<lambda>m v. ble m (Fin v)) mn p \<and> list_all2 (\<lambda>v m. ble (Fin v) m) p mx)"

definition bounds_invariant :: "row \<Rightarrow> bool" where
  "bounds_invariant r =
     (case min_limits r of
        None \<Rightarrow> False
      | Some mn \<Rightarrow>
          (case max_limits r of
             None \<Rightarrow> False
           | Some mx \<Rightarrow> vector_within mn (parameters r) mx))"

definition line_in_bounds :: "filtered \<Rightarrow> bool" where
  "line_in_bounds l =
     (min_loc l \<le> wavelength l \<and> wavelength l \<le> max_loc l
      \<and> min_sd l \<le> sigma l \<and> sigma l \<le> max_sd l \<and> 0 \<le> max_flux l)"

definition continuum_in_bounds :: "real list option \<Rightarrow> bool" where
  "continuum_in_bounds continuum_pars =
     (case continuum_pars of
        None \<Rightarrow> True
      | Some pars \<Rightarrow> length pars = 3 \<and> list_all (\<lambda>v. 0 \<le> v) pars)"

definition amplitude_in_bounds :: "row \<Rightarrow> bool" where
  "amplitude_in_bounds r =
     (0 \<le> parameters r ! 1 \<and> (0 < parameters r ! 1 \<longrightarrow> 1 \<le> component r))"

definition row_above_floor :: "row \<Rightarrow> bool" where
  "row_above_floor r =
     (if model r = ''Gaussian'' then
        length (parameters r) = 3 \<and> amplitude_in_bounds r \<and> 2 \<le> parameters r ! 2
      else if model r = ''Lorentzian'' then
        length (parameters r) = 3 \<and> amplitude_in_bounds r \<and> 2.22 \<le> parameters r ! 2
      else if model r = ''Voigt'' then
        length (parameters r) = 4 \<and> amplitude_in_bounds r \<and> 2 \<le> parameters r ! 2
          \<and> 2.22 \<le> parameters r ! 3 \<and> parameters r ! 3 \<le> 1.665 * parameters r ! 2
      else if model r = ''Continuum'' then
        length (parameters r) = 3 \<and> 0 \<le> parameters r ! 1
      else False)"

text \<open>
  The property of the continuum mask carried through the second loop: the mask is as
  long as the spectrum, and it is off inside the window of every line recorded so far.
\<close>

definition masked_inv :: "real list \<Rightarrow> analysis \<Rightarrow> bool" where
  "masked_inv x st \<longleftrightarrow>
     length (continuum_mask st) = length x
     \<and> (\<forall>r \<in> set (results st). \<forall>i < length x.
           observed_wavelength r - fwhm r / 2 - 3 * (fwhm r / 2.355) \<le> x ! i
           \<and> x ! i \<le> observed_wavelength r + fwhm r / 2 + 3 * (fwhm r / 2.355)
           \<longrightarrow> \<not> continuum_mask st ! i)"

section \<open>Sample inputs\<close>

definition hbeta_catalog :: "(string \<times> emline) list" where
  "hbeta_catalog = [(''Hb'', \<lparr>em_wavelength = [Some 4861], em_components = ''Gaussian''\<rparr>)]"

definition hbeta_line :: filtered where
  "hbeta_line = \<lparr>name = ''Hb'', wavelength = 4861, sigma = 3, min_loc = 4855, max_loc = 4867,
                   min_sd = 2, max_sd = 4.5, max_flux = 10, SNR = Some 5\<rparr>"

definition hbeta_narrow :: filtered where
  "hbeta_narrow = \<lparr>name = ''Hb'', wavelength = 4861, sigma = 1, min_loc = 4859, max_loc = 4863,
                     min_sd = 2, max_sd = 1.5, max_flux = 10, SNR = Some 5\<rparr>"

definition gaussian_row :: "real \<Rightarrow> row" where
  "gaussian_row s = \<lparr>line_name = ''Hb'', model = ''Gaussian'', component = 1,
                       parameters = [4861, 10, s], max_limits = None, min_limits = None\<rparr>"

definition halpha_row :: row where
  "halpha_row = \<lparr>line_name = ''Ha'', model = ''Gaussian'', component = 1,
                  parameters = [6563, 8, 4], max_limits = None, min_limits = None\<rparr>"

definition fitted_table :: dataframe where
  "fitted_table =
     \<lparr>df_frame = [(0, gaussian_row 3), (1, halpha_row), (2, continuum_row [1, 2, 3])],
      parameter_errors = Some [[0.1, 0.1, 0.1], [0.1, 0.1, 0.1], [0.1, 0.1, 0.1]]\<rparr>"

definition expanded_table :: dataframe where
  "expanded_table =
     \<lparr>df_frame =
        [(0, \<lparr>line_name = ''Hb'', model = ''Gaussian'', component = 1,
              parameters = [4861, 10, 3],
              max_limits = Some [Fin 4867, Fin 20, Fin 4.5],
              min_limits = Some [Fin 4855, Fin 0, Fin 2]\<rparr>),
         (1, \<lparr>line_name = ''Hb'', model = ''Lorentzian'', component = 2,
              parameters = [4861, 5, 3],
              max_limits = Some [Fin 4867, Fin 10, Fin 4.995],
              min_limits = Some [Fin 4855, Fin 0, Fin 2.22]\<rparr>),
         (2, \<lparr>line_name = ''Ha'', model = ''Gaussian'', component = 1,
              parameters = [6563, 8, 4],
              max_limits = Some [Fin 6571, Fin 8, Fin 6],
              min_limits = Some [Fin 6555, Fin 0, Fin 2]\<rparr>),
         (3, \<lparr>line_name = ''Continuum'', model = ''Continuum'', component = 0,
              parameters = [1, 2, 3],
              max_limits = Some [PosInf, PosInf, PosInf],
              min_limits = Some [NegInf, Fin 0, NegInf]\<rparr>)],
      parameter_errors = None\<rparr>"

definition sample_x :: "real list" where
  "sample_x = [4858, 4860, 4861, 4863, 4864]"

definition sample_y :: "real list" where
  "sample_y = [1, 5, 1, 9, 1]"

definition sample_resolved :: resolved where
  "sample_resolved = \<lparr>line = ''Hb'', restframe_wavelength = 4861, observed_wavelength = 4860,
                       peak_flux = 5, fwhm = 1.5\<rparr>"

definition sample_analysis :: analysis where
  "sample_analysis = \<lparr>results = [sample_resolved],
                       continuum_mask = [False, False, False, True, True],
                       synthetic_flux = [0, 0, 0, 9, 1]\<rparr>"

definition sample_extent :: extent where
  "sample_extent = \<lparr>ext_fwhm = 3 / 2, ext_sigma = 100 / 157,
                     line_start = 3050409 / 628, line_end = 3053751 / 628\<rparr>"

definition sample_peak :: matched where
  "sample_peak = \<lparr>line = ''Hb'', restframe_wavelength = 4861, observed_wavelength = 4860,
                   peak_flux = 5, peak_idx = 1\<rparr>"

definition flat_x :: "real list" where
  "flat_x = [4859, 4860, 4861, 4862, 4863]"

definition flat_y :: "real list" where
  "flat_y = [1, 1, 1.5, 1, 1]"

definition sliver_x :: "real list" where
  "sliver_x = [4858, 4860, 4861, 4862.6609, 4864]"

text \<open>
  Stand-ins for the two library calls of the second loop on the sample flux:
  \<^verbatim>\<open>peak_widths\<close> gives width 1.0 from the left crossing 0.5 for the maximum at
  position 1, and the noise drawn for the masked samples is taken to be zero.
\<close>

definition sample_widths :: "real list \<Rightarrow> nat \<Rightarrow> real \<times> real" where
  "sample_widths f k = (1, 0.5)"

definition no_noise :: "real \<Rightarrow> nat \<Rightarrow> real list" where
  "no_noise scale n = replicate n 0"

definition flat_peak_line :: matched where
  "flat_peak_line = \<lparr>line = ''Hb'', restframe_wavelength = 4861, observed_wavelength = 4861,
                      peak_flux = 1.5, peak_idx = 2\<rparr>"

definition edge_resolved :: resolved where
  "edge_resolved = \<lparr>line = ''Hb'', restframe_wavelength = 4861, observed_wavelength = 4860,
                     peak_flux = 2, fwhm = 1.5\<rparr>"

definition edge_continuum :: "(real \<times> real) list" where
  "edge_continuum = [(4859, 1), (4860, 1), (4861, 1), (4863, 1.2), (4864, 0.8)]"

definition sample_row :: "string \<Rightarrow> int \<Rightarrow> real list \<Rightarrow> row" where
  "sample_row m n p = \<lparr>line_name = ''Ha'', model = m, component = n, parameters = p,
                        max_limits = None, min_limits = None\<rparr>"

definition lone_second_table :: dataframe where
  "lone_second_table =
     \<lparr>df_frame = [(0, sample_row ''Gaussian'' 2 [6563, 10, 3])],
      parameter_errors = Some [[0.1, 0.1, 0.1]]\<rparr>"

definition lorentzian_table :: dataframe where
  "lorentzian_table =
     \<lparr>df_frame = [(0, sample_row ''Lorentzian'' 1 [6563, 10, 3])],
      parameter_errors = Some [[0.1, 0.1, 0.1]]\<rparr>"

definition moffat_table :: dataframe where
  "moffat_table =
     \<lparr>df_frame = [(0, gaussian_row 3), (1, sample_row ''Moffat'' 1 [6563, 8, 4])],
      parameter_errors = Some [[0.1, 0.1, 0.1], [0.1, 0.1, 0.1]]\<rparr>"

definition shuffled_table :: dataframe where
  "shuffled_table =
     \<lparr>df_frame = [(1, gaussian_row 3), (0, halpha_row)],
      parameter_errors = Some [[0.1, 0.1, 0.1], [0.1, 0.1, 0.1]]\<rparr>"

definition hbeta_negative :: filtered where
  "hbeta_negative = \<lparr>name = ''Hb'', wavelength = 4861, sigma = 3, min_loc = 4855,
                       max_loc = 4867, min_sd = 2, max_sd = 4.5, max_flux = - 1,
                       SNR = Some 5\<rparr>"

definition wide_resolved :: resolved where
  "wide_resolved = \<lparr>line = ''Hb'', restframe_wavelength = 4861, observed_wavelength = 4861,
                     peak_flux = 10, fwhm = 8\<rparr>"

definition sample_continuum :: "(real \<times> real) list" where
  "sample_continuum = [(4858, 0), (4860, 0), (4861, 0), (4863, 9), (4864, 1)]"

definition wide_line :: filtered where
  "wide_line = line_details sample_continuum 10 1 wide_resolved"

definition wide_table :: dataframe where
  "wide_table =
     \<lparr>df_frame =
        [(0, table_row ''Hb'' ''Gaussian'' 1
               [wavelength wide_line, max_flux wide_line, sigma wide_line]
               [Fin (max_loc wide_line), Fin (max_flux wide_line), Fin (max_sd wide_line)]
               [Fin (min_loc wide_line), Fin 0, Fin (min_sd wide_line)]),
         (1, continuum_row [1, 2, 3])],
      parameter_errors = None\<rparr>"

section \<open>Properties of the peak detector\<close>

lemma select_length:
  "length msk = length xs \<Longrightarrow> length (select msk xs) = length (filter id msk)"
  by (induction msk xs rule: list_induct2) (simp_all add: select_def)

lemma select_subset: "set (select msk xs) \<subseteq> set xs"
  by (auto simp: select_def dest: set_zip_rightD)

lemma where_first_found:
  "v \<in> set ws \<Longrightarrow> \<exists>i. where_first ws v n = Inr (n + i) \<and> i < length ws \<and> ws ! i = v"
proof (induction ws arbitrary: n)
  case Nil
  then show ?case by simp
next
  case (Cons w ws)
  show ?case
  proof (cases "w = v")
    case True
    then show ?thesis by (intro exI [of _ 0]) simp
  next
    case False
    with Cons.prems have "v \<in> set ws" by simp
    from Cons.IH [OF this, of "Suc n"] obtain i where
      "where_first ws v (Suc n) = Inr (Suc n + i)" "i < length ws" "ws ! i = v" by blast
    with False show ?thesis by (intro exI [of _ "Suc i"]) simp
  qed
qed

lemma closest_peak_min:
  assumes "\<forall>p \<in> set ps. p < length ww"
    and "(c = None \<and> m = None \<and> S = {})
       \<or> (\<exists>k. c = Some k \<and> m = Some \<bar>ww ! k - rest\<bar> \<and> k \<in> S
              \<and> (\<forall>p \<in> S. \<bar>ww ! k - rest\<bar> \<le> \<bar>ww ! p - rest\<bar>))"
  shows "\<exists>r. closest_peak ww rest ps c m = Inr r
          \<and> ((r = None \<and> S \<union> set ps = {})
             \<or> (\<exists>k. r = Some k \<and> k \<in> S \<union> set ps
                   \<and> (\<forall>p \<in> S \<union> set ps. \<bar>ww ! k - rest\<bar> \<le> \<bar>ww ! p - rest\<bar>)))"
  using assms
proof (induction ps arbitrary: c m S)
  case Nil
  then show ?case by auto
next
  case (Cons q ps)
  from Cons.prems(1) have q: "q < length ww" and ps: "\<forall>p \<in> set ps. p < length ww" by simp_all
  let ?d = "\<bar>ww ! q - rest\<bar>"
  show ?case
  proof (cases "case m of None \<Rightarrow> True | Some d \<Rightarrow> ?d < d")
    case True
    have inv: "(Some q = None \<and> Some ?d = None \<and> insert q S = {})
       \<or> (\<exists>k. Some q = Some k \<and> Some ?d = Some \<bar>ww ! k - rest\<bar> \<and> k \<in> insert q S
              \<and> (\<forall>p \<in> insert q S. \<bar>ww ! k - rest\<bar> \<le> \<bar>ww ! p - rest\<bar>))"
      using Cons.prems(2) True by (auto split: option.splits)
    from Cons.IH [OF ps inv] True q show ?thesis by (simp add: Let_def)
  next
    case False
    then obtain d where m: "m = Some d" "\<not> ?d < d" by (auto split: option.splits)
    with Cons.prems(2) obtain k where k: "c = Some k" "d = \<bar>ww ! k - rest\<bar>" "k \<in> S"
      "\<forall>p \<in> S. \<bar>ww ! k - rest\<bar> \<le> \<bar>ww ! p - rest\<bar>" by auto
    have inv: "(c = None \<and> m = None \<and> insert q S = {})
       \<or> (\<exists>k. c = Some k \<and> m = Some \<bar>ww ! k - rest\<bar> \<and> k \<in> insert q S
              \<and> (\<forall>p \<in> insert q S. \<bar>ww ! k - rest\<bar> \<le> \<bar>ww ! p - rest\<bar>))"
      using m k by auto
    from Cons.IH [OF ps inv] False q show ?thesis by (simp add: Let_def)
  qed
qed

lemma local_maxima_range: "p \<in> set (local_maxima f) \<Longrightarrow> p < length f"
proof -
  assume "p \<in> set (local_maxima f)"
  then obtain l r where "l \<le> r" "r < length f" "p = (l + r) div 2"
    by (auto simp: local_maxima_def)
  then show ?thesis by simp
qed

lemma find_peaks_set:
  "set (find_peaks f pmin) = {p \<in> set (local_maxima f). pmin \<le> prominence f p}"
  by (simp add: find_peaks_def)

lemma match_line_entry:
  assumes "em_wavelength params = Some rest # others"
    and "length x = length y"
    and "window_wavelengths = select (window_mask x (rest - window) (rest + window)) x"
    and "window_flux = select (window_mask x (rest - window) (rest + window)) y"
  shows "window_wavelengths = [] \<longrightarrow> match_line x y window nm params = Inr None"
    and "window_wavelengths \<noteq> [] \<longrightarrow>
           (\<forall>p \<in> set (local_maxima window_flux). prominence window_flux p < 0.5) \<longrightarrow>
            match_line x y window nm params = Inr None"
    and "window_wavelengths \<noteq> [] \<longrightarrow>
           (\<exists>p \<in> set (local_maxima window_flux). 0.5 \<le> prominence window_flux p) \<longrightarrow>
          (\<exists>k i. k \<in> set (local_maxima window_flux) \<and> 0.5 \<le> prominence window_flux k
             \<and> (\<forall>p \<in> set (local_maxima window_flux). 0.5 \<le> prominence window_flux p \<longrightarrow>
                   \<bar>window_wavelengths ! k - rest\<bar> \<le> \<bar>window_wavelengths ! p - rest\<bar>)
             \<and> i < length x \<and> x ! i = window_wavelengths ! k
             \<and> match_line x y window nm params
                 = Inr (Some \<lparr>line = nm, restframe_wavelength = rest,
                               observed_wavelength = window_wavelengths ! k,
                               peak_flux = window_flux ! k, peak_idx = i\<rparr>))"
proof -
  let ?msk = "window_mask x (rest - window) (rest + window)"
  let ?pk = "find_peaks window_flux 0.5"
  have lm: "length ?msk = length x" by (simp add: window_mask_def)
  have len: "length window_flux = length window_wavelengths"
    using assms(2) lm by (simp add: assms(3,4) select_length)
  have rng: "\<forall>p \<in> set ?pk. p < length window_wavelengths"
    using local_maxima_range [of _ window_flux] len by (auto simp: find_peaks_set)
  from closest_peak_min [OF rng, of None None "{}" rest] obtain r where
    r: "closest_peak window_wavelengths rest ?pk None None = Inr r"
    and rr: "(r = None \<and> set ?pk = {})
       \<or> (\<exists>k. r = Some k \<and> k \<in> set ?pk
             \<and> (\<forall>p \<in> set ?pk.
                   \<bar>window_wavelengths ! k - rest\<bar> \<le> \<bar>window_wavelengths ! p - rest\<bar>))"
    by auto
  have unf: "window_wavelengths \<noteq> [] \<Longrightarrow> match_line x y window nm params =
      (case r of None \<Rightarrow> Inr None
       | Some k \<Rightarrow>
           (case where_first x (window_wavelengths ! k) 0 of
              Inl e \<Rightarrow> Inl e
            | Inr i \<Rightarrow> Inr (Some \<lparr>line = nm, restframe_wavelength = rest,
                               observed_wavelength = window_wavelengths ! k,
                               peak_flux = window_flux ! k, peak_idx = i\<rparr>)))"
    using r by (simp add: match_line_def assms(1,2) assms(3) [symmetric] assms(4) [symmetric])
  show "window_wavelengths = [] \<longrightarrow> match_line x y window nm params = Inr None"
    by (simp add: match_line_def assms(1,2) assms(3) [symmetric])
  show "window_wavelengths \<noteq> [] \<longrightarrow>
           (\<forall>p \<in> set (local_maxima window_flux). prominence window_flux p < 0.5) \<longrightarrow>
            match_line x y window nm params = Inr None"
  proof (intro impI)
    assume ne: "window_wavelengths \<noteq> []"
      and low: "\<forall>p \<in> set (local_maxima window_flux). prominence window_flux p < 0.5"
    from low have "set ?pk = {}" by (auto simp: find_peaks_set)
    with rr have "r = None" by auto
    with unf [OF ne] show "match_line x y window nm params = Inr None" by simp
  qed
  show "window_wavelengths \<noteq> [] \<longrightarrow>
           (\<exists>p \<in> set (local_maxima window_flux). 0.5 \<le> prominence window_flux p) \<longrightarrow>
          (\<exists>k i. k \<in> set (local_maxima window_flux) \<and> 0.5 \<le> prominence window_flux k
             \<and> (\<forall>p \<in> set (local_maxima window_flux). 0.5 \<le> prominence window_flux p \<longrightarrow>
                   \<bar>window_wavelengths ! k - rest\<bar> \<le> \<bar>window_wavelengths ! p - rest\<bar>)
             \<and> i < length x \<and> x ! i = window_wavelengths ! k
             \<and> match_line x y window nm params
                 = Inr (Some \<lparr>line = nm, restframe_wavelength = rest,
                               observed_wavelength = window_wavelengths ! k,
                               peak_flux = window_flux ! k, peak_idx = i\<rparr>))"
  proof (intro impI)
    assume ne: "window_wavelengths \<noteq> []"
      and pk: "\<exists>p \<in> set (local_maxima window_flux). 0.5 \<le> prominence window_flux p"
    from pk have "set ?pk \<noteq> {}" by (auto simp: find_peaks_set)
    with rr obtain k where k: "r = Some k" "k \<in> set ?pk"
      "\<forall>p \<in> set ?pk.
          \<bar>window_wavelengths ! k - rest\<bar> \<le> \<bar>window_wavelengths ! p - rest\<bar>"
      by auto
    from k(2) rng have "k < length window_wavelengths" by simp
    then have "window_wavelengths ! k \<in> set x"
      using select_subset [of ?msk x] by (auto simp: assms(3))
    from where_first_found [OF this, of 0] obtain i where
      i: "where_first x (window_wavelengths ! k) 0 = Inr i" "i < length x"
         "x ! i = window_wavelengths ! k" by auto
    from k(2) have k1: "k \<in> set (local_maxima window_flux)" "0.5 \<le> prominence window_flux k"
      by (simp_all add: find_peaks_set)
    from k(3) have k2: "\<forall>p \<in> set (local_maxima window_flux). 0.5 \<le> prominence window_flux p \<longrightarrow>
                   \<bar>window_wavelengths ! k - rest\<bar> \<le> \<bar>window_wavelengths ! p - rest\<bar>"
      by (simp add: find_peaks_set)
    show "\<exists>k i. k \<in> set (local_maxima window_flux) \<and> 0.5 \<le> prominence window_flux k
             \<and> (\<forall>p \<in> set (local_maxima window_flux). 0.5 \<le> prominence window_flux p \<longrightarrow>
                   \<bar>window_wavelengths ! k - rest\<bar> \<le> \<bar>window_wavelengths ! p - rest\<bar>)
             \<and> i < length x \<and> x ! i = window_wavelengths ! k
             \<and> match_line x y window nm params
                 = Inr (Some \<lparr>line = nm, restframe_wavelength = rest,
                               observed_wavelength = window_wavelengths ! k,
                               peak_flux = window_flux ! k, peak_idx = i\<rparr>)"
      using k1 k2 k(1) i unf [OF ne] by (intro exI [of _ k] exI [of _ i]) simp
  qed
qed

lemma match_line_total:
  assumes "length x = length y" and "em_wavelength params \<noteq> []"
  shows "\<exists>r. match_line x y window nm params = Inr r"
proof (cases "em_wavelength params")
  case Nil
  with assms(2) show ?thesis by simp
next
  case (Cons w others)
  show ?thesis
  proof (cases w)
    case None
    with Cons show ?thesis by (simp add: match_line_def)
  next
    case (Some rest)
    with Cons have e: "em_wavelength params = Some rest # others" by simp
    note m = match_line_entry [OF e assms(1) refl refl, of window nm]
    let ?ww = "select (window_mask x (rest - window) (rest + window)) x"
    let ?wf = "select (window_mask x (rest - window) (rest + window)) y"
    show ?thesis
    proof (cases "?ww = []")
      case True
      with m(1) show ?thesis by blast
    next
      case False
      show ?thesis
      proof (cases "\<exists>p \<in> set (local_maxima ?wf). 0.5 \<le> prominence ?wf p")
        case True
        with m(3) False show ?thesis by blast
      next
        case False
        then have "\<forall>p \<in> set (local_maxima ?wf). prominence ?wf p < 0.5" by auto
        with m(2) \<open>?ww \<noteq> []\<close> show ?thesis by blast
      qed
    qed
  qed
qed

lemma matched_loop_result:
  assumes "length x = length y"
  shows "\<forall>e \<in> set items. em_wavelength (snd e) \<noteq> [] \<Longrightarrow>
     matched_loop x y window items acc =
       Inr (acc @ concat (map (\<lambda>e. case match_line x y window (fst e) (snd e) of
                                    Inr (Some m) \<Rightarrow> [m] | _ \<Rightarrow> []) items))"
proof (induction items arbitrary: acc)
  case Nil
  then show ?case by simp
next
  case (Cons a items)
  obtain nm params where a: "a = (nm, params)" by (cases a)
  from Cons.prems have ne: "em_wavelength params \<noteq> []"
    and rest: "\<forall>e \<in> set items. em_wavelength (snd e) \<noteq> []" by (simp_all add: a)
  from match_line_total [OF assms ne] obtain r where
    r: "match_line x y window nm params = Inr r" by blast
  show ?case
  proof (cases r)
    case None
    with r Cons.IH [OF rest, of acc] show ?thesis by (simp add: a)
  next
    case (Some m)
    with r Cons.IH [OF rest, of "acc @ [m]"] show ?thesis by (simp add: a)
  qed
qed

text \<open>
  Claim C3, as amended. On spectrum columns of equal length and a catalog whose entries
  all carry a wavelength list, the first loop of \<^verbatim>\<open>analyze_emission_lines\<close> returns,
  in catalog order, one candidate for every entry that the loop body resolves and nothing
  for the others. For an entry with the rest wavelength \<open>rest\<close>: when no sample lies in
  \<open>[rest - window, rest + window]\<close> the entry is skipped without error; when no local
  maximum of the window flux has a prominence of at least 0.5 no candidate is produced;
  otherwise the candidate is the local maximum of prominence at least 0.5 whose wavelength
  minimises the absolute difference to the rest wavelength, recorded with its flux and
  with a position of that wavelength in the full spectrum. The threshold is inclusive.
\<close>

theorem matched_loop_closest_peak:
  assumes "length x = length y"
    and "\<forall>e \<in> set lines_dict. em_wavelength (snd e) \<noteq> []"
    and "em_wavelength params = Some rest # others"
    and "window_wavelengths = select (window_mask x (rest - window) (rest + window)) x"
    and "window_flux = select (window_mask x (rest - window) (rest + window)) y"
  shows "matched_loop x y window lines_dict [] =
           Inr (concat (map (\<lambda>e. case match_line x y window (fst e) (snd e) of
                                    Inr (Some m) \<Rightarrow> [m] | _ \<Rightarrow> []) lines_dict))
    \<and> (window_wavelengths = [] \<longrightarrow> match_line x y window nm params = Inr None)
    \<and> (window_wavelengths \<noteq> [] \<longrightarrow>
           (\<forall>p \<in> set (local_maxima window_flux). prominence window_flux p < 0.5) \<longrightarrow>
            match_line x y window nm params = Inr None)
    \<and> (window_wavelengths \<noteq> [] \<longrightarrow>
           (\<exists>p \<in> set (local_maxima window_flux). 0.5 \<le> prominence window_flux p) \<longrightarrow>
          (\<exists>k i. k \<in> set (local_maxima window_flux) \<and> 0.5 \<le> prominence window_flux k
             \<and> (\<forall>p \<in> set (local_maxima window_flux). 0.5 \<le> prominence window_flux p \<longrightarrow>
                   \<bar>window_wavelengths ! k - rest\<bar> \<le> \<bar>window_wavelengths ! p - rest\<bar>)
             \<and> i < length x \<and> x ! i = window_wavelengths ! k
             \<and> match_line x y window nm params
                 = Inr (Some \<lparr>line = nm, restframe_wavelength = rest,
                               observed_wavelength = window_wavelengths ! k,
                               peak_flux = window_flux ! k, peak_idx = i\<rparr>)))"
  using matched_loop_result [OF assms(1,2), of window "[]"]
    match_line_entry [OF assms(3) assms(1) assms(4,5), of nm]
  by simp

lemma sample_maxima:
  "local_maxima sample_y = [1, 3]"
  "prominence sample_y (Suc 0) = 4"
  "prominence sample_y 3 = 8"
proof -
  show "local_maxima sample_y = [1, 3]"
    by (simp add: local_maxima_def flat_peak_def sample_y_def upt_rec)
  show "prominence sample_y (Suc 0) = 4" "prominence sample_y 3 = 8"
    by (simp_all add: prominence_def sample_y_def numeral_eq_Suc)
qed

lemma sample_select:
  "select (window_mask sample_x 4841 4881) sample_x = sample_x"
  "select (window_mask sample_x 4841 4881) sample_y = sample_y"
  by (simp_all add: sample_x_def sample_y_def window_mask_def select_def)

lemma sample_match:
  "match_line sample_x sample_y 20 ''Hb''
     \<lparr>em_wavelength = [Some 4861], em_components = ''Gaussian''\<rparr> = Inr (Some sample_peak)"
proof -
  have fp: "find_peaks sample_y (1 / 2) = [Suc 0, 3]"
    by (simp add: find_peaks_def sample_maxima)
  have c: "closest_peak sample_x 4861 [Suc 0, 3] None None = Inr (Some (Suc 0))"
    by (simp add: sample_x_def)
  have w: "where_first sample_x (sample_x ! Suc 0) 0 = Inr (Suc 0)"
    by (simp add: sample_x_def)
  have n: "sample_x \<noteq> []" "length sample_x = length sample_y"
    by (simp_all add: sample_x_def sample_y_def)
  have v: "sample_peak = \<lparr>line = ''Hb'', restframe_wavelength = 4861,
             observed_wavelength = sample_x ! Suc 0, peak_flux = sample_y ! Suc 0,
             peak_idx = Suc 0\<rparr>"
    by (simp add: sample_peak_def sample_x_def sample_y_def)
  show ?thesis
    by (simp add: match_line_def sample_select fp c w n v
          del: closest_peak.simps where_first.simps)
qed

text \<open>
  The hypotheses of C3 hold on the five-sample spectrum: of its two maxima, of prominence
  4 and 8, the one at 4860 is closest to the rest wavelength 4861.
\<close>

theorem matched_loop_closest_peak_witness:
  "length sample_x = length sample_y
   \<and> em_wavelength (snd (hd hbeta_catalog)) \<noteq> []
   \<and> em_wavelength \<lparr>em_wavelength = [Some 4861], em_components = ''Gaussian''\<rparr>
       = Some 4861 # []
   \<and> sample_x = select (window_mask sample_x (4861 - 20) (4861 + 20)) sample_x
   \<and> sample_y = select (window_mask sample_x (4861 - 20) (4861 + 20)) sample_y
   \<and> local_maxima sample_y = [1, 3]
   \<and> 0.5 \<le> prominence sample_y 3
   \<and> matched_loop sample_x sample_y 20 hbeta_catalog [] = Inr [sample_peak]
   \<and> match_line sample_x sample_y 20 ''Hb''
        \<lparr>em_wavelength = [Some 4861], em_components = ''Gaussian''\<rparr> = Inr (Some sample_peak)"
proof -
  have l: "length sample_x = length sample_y" by (simp add: sample_x_def sample_y_def)
  have d: "\<forall>e \<in> set hbeta_catalog. em_wavelength (snd e) \<noteq> []"
    by (simp add: hbeta_catalog_def)
  have e: "em_wavelength \<lparr>em_wavelength = [Some 4861], em_components = ''Gaussian''\<rparr>
       = Some 4861 # []" by simp
  have sx: "sample_x = select (window_mask sample_x (4861 - 20) (4861 + 20)) sample_x"
    and sy: "sample_y = select (window_mask sample_x (4861 - 20) (4861 + 20)) sample_y"
    by (simp_all add: sample_select)
  from matched_loop_closest_peak [OF l d e sx sy, of "''Hb''"]
  show ?thesis
    by (simp add: sample_select sample_maxima sample_match hbeta_catalog_def l)
qed

lemma flat_maxima:
  "local_maxima flat_y = [2]"
  "prominence flat_y 2 = 0.5"
proof -
  show "local_maxima flat_y = [2]"
    by (simp add: local_maxima_def flat_peak_def flat_y_def upt_rec)
  show "prominence flat_y 2 = 0.5"
    by (simp add: prominence_def flat_y_def numeral_eq_Suc)
qed

lemma flat_select:
  "select (window_mask flat_x 4841 4881) flat_x = flat_x"
  "select (window_mask flat_x 4841 4881) flat_y = flat_y"
  by (simp_all add: flat_x_def flat_y_def window_mask_def select_def)

lemma flat_match:
  "match_line flat_x flat_y 20 ''Hb''
     \<lparr>em_wavelength = [Some 4861], em_components = ''Gaussian''\<rparr> = Inr (Some flat_peak_line)"
proof -
  have fp: "find_peaks flat_y (1 / 2) = [2]"
    by (simp add: find_peaks_def flat_maxima)
  have c: "closest_peak flat_x 4861 [2] None None = Inr (Some 2)"
    by (simp add: flat_x_def)
  have w: "where_first flat_x (flat_x ! 2) 0 = Inr 2"
    by (simp add: flat_x_def)
  have n: "flat_x \<noteq> []" "length flat_x = length flat_y"
    by (simp_all add: flat_x_def flat_y_def)
  have v: "flat_peak_line = \<lparr>line = ''Hb'', restframe_wavelength = 4861,
             observed_wavelength = flat_x ! 2, peak_flux = flat_y ! 2, peak_idx = 2\<rparr>"
    by (simp add: flat_peak_line_def flat_x_def flat_y_def)
  show ?thesis
    by (simp add: match_line_def flat_select fp c w n v
          del: closest_peak.simps where_first.simps)
qed

text \<open>
  Claim C3 as stated fails. The flux \<open>1, 1, 1.5, 1, 1\<close> has one local maximum, of
  prominence exactly 0.5. The prominence does not exceed 0.5, yet the maximum passes
  \<^verbatim>\<open>find_peaks(window_flux, prominence=0.5)\<close> and the loop returns a candidate for it.
\<close>

theorem matched_loop_threshold_counterexample:
  "local_maxima flat_y = [2]
   \<and> prominence flat_y 2 = 0.5
   \<and> \<not> 0.5 < prominence flat_y 2
   \<and> matched_loop flat_x flat_y 20 hbeta_catalog [] = Inr [flat_peak_line]"
  by (simp add: flat_maxima hbeta_catalog_def flat_match)

lemma line_extent_fields:
  assumes "line_extent x y peak_widths l = Inr ext"
  shows "ext_sigma ext = ext_fwhm ext / 2.355"
    and "line_start ext = observed_wavelength l - ext_fwhm ext / 2 - 3 * (ext_fwhm ext / 2.355)"
    and "line_end ext = observed_wavelength l + ext_fwhm ext / 2 + 3 * (ext_fwhm ext / 2.355)"
    and "\<exists>hi lo. np_interp (snd (peak_widths y (peak_idx l)) + fst (peak_widths y (peak_idx l))) x
                    = Inr hi
               \<and> np_interp (snd (peak_widths y (peak_idx l))) x = Inr lo
               \<and> ext_fwhm ext = hi - lo"
  using assms
  by (auto simp: line_extent_def Let_def split: prod.splits sum.splits)

lemma np_interp_total: "fp \<noteq> [] \<Longrightarrow> \<exists>v. np_interp q fp = Inr v"
  by (simp add: np_interp_def Let_def)

lemma line_extent_total: "x \<noteq> [] \<Longrightarrow> \<exists>ext. line_extent x y peak_widths l = Inr ext"
proof -
  assume x: "x \<noteq> []"
  obtain w lft where p: "peak_widths y (peak_idx l) = (w, lft)" by (cases "peak_widths y (peak_idx l)")
  from np_interp_total [OF x] obtain hi where hi: "np_interp (lft + w) x = Inr hi" by blast
  from np_interp_total [OF x] obtain lo where lo: "np_interp lft x = Inr lo" by blast
  show ?thesis by (simp add: line_extent_def p hi lo Let_def)
qed

lemma mask_line_parts:
  assumes "mask_line x y peak_widths normal l st = Inr st'"
  obtains ext where "line_extent x y peak_widths l = Inr ext"
    "results st' = results st @
       [\<lparr>line = line l, restframe_wavelength = restframe_wavelength l,
         observed_wavelength = observed_wavelength l, peak_flux = peak_flux l,
         fwhm = ext_fwhm ext\<rparr>]"
    "continuum_mask st' = map2 (\<lambda>c m. c \<and> \<not> m) (continuum_mask st)
                            (window_mask x (line_start ext) (line_end ext))"
  using assms
  by (auto simp: mask_line_def Let_def split: sum.splits)

lemma mask_line_inv:
  assumes "mask_line x y peak_widths normal l st = Inr st'" and "masked_inv x st"
  shows "masked_inv x st'"
proof -
  from assms(1) obtain ext where
    e: "line_extent x y peak_widths l = Inr ext"
    and res: "results st' = results st @
       [\<lparr>line = line l, restframe_wavelength = restframe_wavelength l,
         observed_wavelength = observed_wavelength l, peak_flux = peak_flux l,
         fwhm = ext_fwhm ext\<rparr>]"
    and cm: "continuum_mask st' = map2 (\<lambda>c m. c \<and> \<not> m) (continuum_mask st)
                            (window_mask x (line_start ext) (line_end ext))"
    by (rule mask_line_parts)
  note f = line_extent_fields(2,3) [OF e]
  from assms(2) have len: "length (continuum_mask st) = length x"
    and prev: "\<And>r i. r \<in> set (results st) \<Longrightarrow> i < length x \<Longrightarrow>
           observed_wavelength r - fwhm r / 2 - 3 * (fwhm r / 2.355) \<le> x ! i \<Longrightarrow>
           x ! i \<le> observed_wavelength r + fwhm r / 2 + 3 * (fwhm r / 2.355) \<Longrightarrow>
           \<not> continuum_mask st ! i"
    by (auto simp: masked_inv_def)
  have len': "length (continuum_mask st') = length x"
    by (simp add: cm len window_mask_def)
  have nth: "\<And>i. i < length x \<Longrightarrow> continuum_mask st' ! i
               = (continuum_mask st ! i \<and> \<not> (line_start ext \<le> x ! i \<and> x ! i \<le> line_end ext))"
    by (simp add: cm len window_mask_def)
  show ?thesis
    unfolding masked_inv_def
  proof (intro conjI ballI allI impI)
    show "length (continuum_mask st') = length x" by (rule len')
  next
    fix r i
    assume r: "r \<in> set (results st')" and i: "i < length x"
      and w: "observed_wavelength r - fwhm r / 2 - 3 * (fwhm r / 2.355) \<le> x ! i
           \<and> x ! i \<le> observed_wavelength r + fwhm r / 2 + 3 * (fwhm r / 2.355)"
    from r res consider (old) "r \<in> set (results st)"
      | (new) "r = \<lparr>line = line l, restframe_wavelength = restframe_wavelength l,
         observed_wavelength = observed_wavelength l, peak_flux = peak_flux l,
         fwhm = ext_fwhm ext\<rparr>" by auto
    then show "\<not> continuum_mask st' ! i"
    proof cases
      case old
      from prev [OF old i] w show ?thesis by (simp add: nth [OF i])
    next
      case new
      with w have "line_start ext \<le> x ! i \<and> x ! i \<le> line_end ext"
        by (simp add: f)
      then show ?thesis by (simp add: nth [OF i])
    qed
  qed
qed

lemma mask_loop_inv:
  "mask_loop x y peak_widths normal ls st = Inr st' \<Longrightarrow> masked_inv x st \<Longrightarrow> masked_inv x st'"
proof (induction ls arbitrary: st)
  case Nil
  then show ?case by simp
next
  case (Cons l ls)
  from Cons.prems(1) obtain st1 where
    s: "mask_line x y peak_widths normal l st = Inr st1"
    and rest: "mask_loop x y peak_widths normal ls st1 = Inr st'"
    by (auto split: sum.splits)
  from Cons.IH [OF rest mask_line_inv [OF s Cons.prems(2)]] show ?case .
qed

lemma sample_mask_loop:
  "mask_loop sample_x sample_y sample_widths no_noise [sample_peak]
     \<lparr>results = [], continuum_mask = replicate (length sample_y) True,
      synthetic_flux = sample_y\<rparr> = Inr sample_analysis"
  by (simp add: sample_x_def sample_y_def sample_peak_def window_mask_def select_def
        mask_line_def line_extent_def np_interp_def np_std_def np_mean_def
        sample_analysis_def sample_resolved_def sample_widths_def no_noise_def)

lemma sample_analyze:
  "analyze_state sample_x sample_y hbeta_catalog 20 sample_widths no_noise
     = Inr sample_analysis"
  by (simp add: analyze_state_def hbeta_catalog_def sample_match sample_mask_loop
        del: mask_loop.simps)

lemma sample_lengths: "length sample_x = 5" "length sample_y = 5" "length sliver_x = 5"
  by (simp_all add: sample_x_def sample_y_def sliver_x_def)

lemma sliver_match:
  "match_line sliver_x sample_y 20 ''Hb''
     \<lparr>em_wavelength = [Some 4861], em_components = ''Gaussian''\<rparr> = Inr (Some sample_peak)"
proof -
  have s: "select (window_mask sliver_x 4841 4881) sliver_x = sliver_x"
    "select (window_mask sliver_x 4841 4881) sample_y = sample_y"
    by (simp_all add: sliver_x_def sample_y_def window_mask_def select_def)
  have fp: "find_peaks sample_y (1 / 2) = [Suc 0, 3]"
    by (simp add: find_peaks_def sample_maxima)
  have c: "closest_peak sliver_x 4861 [Suc 0, 3] None None = Inr (Some (Suc 0))"
    by (simp add: sliver_x_def)
  have w: "where_first sliver_x (sliver_x ! Suc 0) 0 = Inr (Suc 0)"
    by (simp add: sliver_x_def)
  have n: "sliver_x \<noteq> []" "length sliver_x = length sample_y"
    by (simp_all add: sliver_x_def sample_y_def)
  have v: "sample_peak = \<lparr>line = ''Hb'', restframe_wavelength = 4861,
             observed_wavelength = sliver_x ! Suc 0, peak_flux = sample_y ! Suc 0,
             peak_idx = Suc 0\<rparr>"
    by (simp add: sample_peak_def sliver_x_def sample_y_def)
  show ?thesis
    by (simp add: match_line_def s fp c w n v
          del: closest_peak.simps where_first.simps)
qed

lemma sliver_analyze:
  "analyze_state sliver_x sample_y hbeta_catalog 20 sample_widths no_noise
     = Inr sample_analysis"
proof -
  have "mask_loop sliver_x sample_y sample_widths no_noise [sample_peak]
     \<lparr>results = [], continuum_mask = replicate (length sample_y) True,
      synthetic_flux = sample_y\<rparr> = Inr sample_analysis"
    by (simp add: sliver_x_def sample_y_def sample_peak_def window_mask_def select_def
        mask_line_def line_extent_def np_interp_def np_std_def np_mean_def
        sample_analysis_def sample_resolved_def sample_widths_def no_noise_def)
  then show ?thesis
    by (simp add: analyze_state_def hbeta_catalog_def sliver_match del: mask_loop.simps)
qed

text \<open>
  Claim C7, as amended. At the end of \<^verbatim>\<open>analyze_emission_lines\<close> the continuum mask
  has one entry per sample, and it is off at every sample whose wavelength lies in
  \<open>[observed - fwhm/2 - 3\<sigma>, observed + fwhm/2 + 3\<sigma>]\<close> of a line in the results, where
  \<open>\<sigma>\<close> is the detector's own width \<open>fwhm / 2.355\<close>.
\<close>

theorem continuum_mask_excludes_lines:
  assumes "analyze_state x y lines_dict window peak_widths normal = Inr st"
    and "length x = length y"
  shows "length (continuum_mask st) = length x
    \<and> (\<forall>r \<in> set (results st). \<forall>i < length x.
           observed_wavelength r - fwhm r / 2 - 3 * (fwhm r / 2.355) \<le> x ! i
           \<and> x ! i \<le> observed_wavelength r + fwhm r / 2 + 3 * (fwhm r / 2.355)
           \<longrightarrow> \<not> continuum_mask st ! i)"
proof -
  from assms(1) obtain ms where
    l: "mask_loop x y peak_widths normal ms
          \<lparr>results = [], continuum_mask = replicate (length y) True, synthetic_flux = y\<rparr>
        = Inr st"
    by (auto simp: analyze_state_def split: sum.splits)
  have "masked_inv x
          \<lparr>results = [], continuum_mask = replicate (length y) True, synthetic_flux = y\<rparr>"
    by (simp add: masked_inv_def assms(2))
  from mask_loop_inv [OF l this] show ?thesis by (simp add: masked_inv_def)
qed

text \<open>The hypotheses of C7 hold on the five-sample spectrum.\<close>

theorem continuum_mask_excludes_lines_witness:
  "analyze_state sample_x sample_y hbeta_catalog 20 sample_widths no_noise
     = Inr sample_analysis
   \<and> length sample_x = length sample_y
   \<and> length (continuum_mask sample_analysis) = length sample_x
   \<and> \<not> continuum_mask sample_analysis ! 2"
  using continuum_mask_excludes_lines
    [of sample_x sample_y hbeta_catalog 20 sample_widths no_noise sample_analysis]
  by (simp add: sample_analyze sample_lengths sample_analysis_def)

text \<open>
  Claim C7 as stated fails when \<open>\<sigma>\<close> is the width \<open>fwhm / 2.3548\<close> of the
  specification: the sample at 4862.6609 lies inside that window of the line found at
  4860 with half-maximum width 1.5, and it keeps its continuum flag.
\<close>

theorem continuum_mask_sliver_counterexample:
  "analyze_state sliver_x sample_y hbeta_catalog 20 sample_widths no_noise
     = Inr sample_analysis
   \<and> results sample_analysis = [sample_resolved]
   \<and> observed_wavelength sample_resolved - fwhm sample_resolved / 2
        - 3 * (fwhm sample_resolved / 2.3548) \<le> sliver_x ! 3
   \<and> sliver_x ! 3 \<le> observed_wavelength sample_resolved + fwhm sample_resolved / 2
        + 3 * (fwhm sample_resolved / 2.3548)
   \<and> continuum_mask sample_analysis ! 3"
proof -
  have "sliver_x ! 3 = 4862.6609" by (simp add: sliver_x_def)
  then show ?thesis
    by (simp add: sliver_analyze sample_analysis_def sample_resolved_def)
qed

text \<open>
  Claim C8, as amended. The width used by the masking step is the half-maximum width
  divided by 2.355, where the half-maximum width is the difference of the wavelengths
  interpolated linearly at the two crossing points; the window that is masked spans
  half that width plus three such \<open>\<sigma>\<close> on each side of the observed wavelength, and the
  recorded \<open>fwhm\<close> is the same width. The step succeeds on every non-empty spectrum.
\<close>

theorem mask_line_sigma:
  "(line_extent x y peak_widths l = Inr ext \<longrightarrow>
      ext_sigma ext = ext_fwhm ext / 2.355
      \<and> line_start ext = observed_wavelength l - ext_fwhm ext / 2 - 3 * ext_sigma ext
      \<and> line_end ext = observed_wavelength l + ext_fwhm ext / 2 + 3 * ext_sigma ext
      \<and> (\<exists>hi lo.
            np_interp (snd (peak_widths y (peak_idx l)) + fst (peak_widths y (peak_idx l))) x
              = Inr hi
            \<and> np_interp (snd (peak_widths y (peak_idx l))) x = Inr lo
            \<and> ext_fwhm ext = hi - lo))
   \<and> (mask_line x y peak_widths normal l st = Inr st' \<longrightarrow>
        (\<exists>ext'. line_extent x y peak_widths l = Inr ext'
           \<and> fwhm (last (results st')) = ext_fwhm ext'
           \<and> continuum_mask st' = map2 (\<lambda>c m. c \<and> \<not> m) (continuum_mask st)
                (window_mask x (line_start ext') (line_end ext'))))
   \<and> (x \<noteq> [] \<longrightarrow> (\<exists>ext'. line_extent x y peak_widths l = Inr ext'))"
proof (intro conjI impI)
  assume e: "line_extent x y peak_widths l = Inr ext"
  note f = line_extent_fields [OF e]
  show "ext_sigma ext = ext_fwhm ext / 2.355" by (rule f(1))
  show "line_start ext = observed_wavelength l - ext_fwhm ext / 2 - 3 * ext_sigma ext"
    by (simp add: f(1,2))
  show "line_end ext = observed_wavelength l + ext_fwhm ext / 2 + 3 * ext_sigma ext"
    by (simp add: f(1,3))
  show "\<exists>hi lo.
            np_interp (snd (peak_widths y (peak_idx l)) + fst (peak_widths y (peak_idx l))) x
              = Inr hi
            \<and> np_interp (snd (peak_widths y (peak_idx l))) x = Inr lo
            \<and> ext_fwhm ext = hi - lo" by (rule f(4))
next
  assume "mask_line x y peak_widths normal l st = Inr st'"
  then obtain ext' where "line_extent x y peak_widths l = Inr ext'"
    "results st' = results st @
       [\<lparr>line = line l, restframe_wavelength = restframe_wavelength l,
         observed_wavelength = observed_wavelength l, peak_flux = peak_flux l,
         fwhm = ext_fwhm ext'\<rparr>]"
    "continuum_mask st' = map2 (\<lambda>c m. c \<and> \<not> m) (continuum_mask st)
                            (window_mask x (line_start ext') (line_end ext'))"
    by (rule mask_line_parts)
  then show "\<exists>ext'. line_extent x y peak_widths l = Inr ext'
           \<and> fwhm (last (results st')) = ext_fwhm ext'
           \<and> continuum_mask st' = map2 (\<lambda>c m. c \<and> \<not> m) (continuum_mask st)
                (window_mask x (line_start ext') (line_end ext'))"
    by (intro exI [of _ ext']) simp
next
  assume "x \<noteq> []"
  then show "\<exists>ext'. line_extent x y peak_widths l = Inr ext'" by (rule line_extent_total)
qed

text \<open>The hypotheses of C8 hold on the five-sample spectrum.\<close>

theorem mask_line_sigma_witness:
  "line_extent sample_x sample_y (\<lambda>f k. (1, 0.5)) sample_peak = Inr sample_extent
   \<and> sample_x \<noteq> []
   \<and> mask_line sample_x sample_y (\<lambda>f k. (1, 0.5)) (\<lambda>s n. replicate n 0) sample_peak
        \<lparr>results = [], continuum_mask = replicate 5 True, synthetic_flux = sample_y\<rparr>
       = Inr sample_analysis
   \<and> ext_sigma sample_extent = ext_fwhm sample_extent / 2.355"
  using mask_line_sigma
    [of sample_x sample_y "\<lambda>f k. (1, 0.5)" sample_peak sample_extent
        "\<lambda>s n. replicate n 0"
        "\<lparr>results = [], continuum_mask = replicate 5 True, synthetic_flux = sample_y\<rparr>"
        sample_analysis]
  by (simp add: sample_x_def sample_y_def sample_peak_def sample_extent_def
        window_mask_def select_def mask_line_def line_extent_def np_interp_def np_std_def
        np_mean_def sample_analysis_def sample_resolved_def numeral_eq_Suc)

text \<open>
  Claim C8 as stated fails: for the half-maximum width 1.5 the masking step uses
  \<open>1.5 / 2.355\<close>, which is not \<open>1.5 / 2.3548\<close>.
\<close>

theorem mask_line_sigma_counterexample:
  "line_extent sample_x sample_y (\<lambda>f k. (1, 0.5)) sample_peak = Inr sample_extent
   \<and> ext_sigma sample_extent \<noteq> ext_fwhm sample_extent / 2.3548"
  by (simp add: sample_x_def sample_y_def sample_peak_def sample_extent_def
        line_extent_def np_interp_def)

section \<open>Properties of the significance filter\<close>

lemma sum_squares_nonneg: "0 \<le> (\<Sum>v\<leftarrow>xs. (v - m)\<^sup>2 :: real)"
  by (rule sum_list_nonneg) auto

lemma std_nonneg:
  "0 \<le> sqrt ((\<Sum>v\<leftarrow>xs. (v - m)\<^sup>2 :: real) / real (length xs))"
  by (simp add: sum_squares_nonneg)

lemma snr_of_windows:
  fixes l :: resolved and continuum_spec0 :: "(real \<times> real) list" and window_width :: real
  defines "left \<equiv> window_left continuum_spec0
                      (observed_wavelength l - 2 * sigma_max_of (fwhm l)) window_width"
    and "right \<equiv> window_right continuum_spec0
                      (observed_wavelength l + 2 * sigma_max_of (fwhm l)) window_width"
  defines "local_mean \<equiv> (sum_list left / real (length left)
                            + sum_list right / real (length right)) / 2"
    and "local_std \<equiv>
           (sqrt ((\<Sum>v\<leftarrow>left. (v - sum_list left / real (length left))\<^sup>2)
                  / real (length left))
            + sqrt ((\<Sum>v\<leftarrow>right. (v - sum_list right / real (length right))\<^sup>2)
                  / real (length right))) / 2"
  shows "snr_of continuum_spec0 window_width snr_ext l
           = Some (if left = [] \<or> right = [] \<or> local_std = 0 then snr_ext
                   else (peak_flux l - local_mean) / local_std)"
proof -
  have nn: "0 \<le> local_std"
    unfolding local_std_def by (intro divide_nonneg_nonneg add_nonneg_nonneg std_nonneg) simp
  have s: "local_std_of continuum_spec0 window_width l
             = (if left = [] \<or> right = [] then None else Some local_std)"
    by (simp add: local_std_of_def Let_def mean2_def np_std_def np_mean_def left_def right_def
          local_std_def)
  have m: "local_mean_of continuum_spec0 window_width l
             = (if left = [] \<or> right = [] then None else Some local_mean)"
    by (simp add: local_mean_of_def Let_def mean2_def np_mean_def left_def right_def
          local_mean_def)
  show ?thesis using nn by (auto simp: snr_of_def s m)
qed

lemma filter_step:
  assumes "snr_of continuum_spec0 window_width snr_ext l = Some snr"
    and "sigma_max_of (fwhm l) = sigma_max"
  shows "filter_and_prepare_linelist (l # ls) continuum_spec0 (lo, hi) snr_ext window_width =
     (if lo \<le> observed_wavelength l \<and> observed_wavelength l \<le> hi
         \<and> (snr \<ge> snr_ext \<or> peak_flux l > 3 * snr_ext)
      then [\<lparr>name = line l, wavelength = observed_wavelength l, sigma = sigma_max,
              min_loc = observed_wavelength l - 2 * sigma_max,
              max_loc = observed_wavelength l + 2 * sigma_max,
              min_sd = 2, max_sd = 1.5 * sigma_max, max_flux = peak_flux l,
              SNR = Some snr\<rparr>]
      else [])
     @ filter_and_prepare_linelist ls continuum_spec0 (lo, hi) snr_ext window_width"
  using assms by (simp add: Let_def line_details_def)

lemma sigma_max_of_eq: "sigma_max_of w = w / (2 * sqrt (2 * ln 2))"
  by (simp add: sigma_max_of_def)

text \<open>
  Claim C4, as amended. The output of \<^verbatim>\<open>filter_and_prepare_linelist\<close> holds, in the
  order of the input, one entry for every resolved line whose observed wavelength lies in
  the wavelength range and whose signal-to-noise ratio reaches the threshold or whose peak
  flux exceeds three times the threshold, and no other entry. The ratio is
  \<open>(peak_flux - local_mean) / local_std\<close>, where \<open>local_mean\<close> and \<open>local_std\<close> are
  the averages, over the two side windows of width \<open>window_width\<close> outside
  \<open>observed \<plusminus> 2 sigma_max\<close>, of the mean and of the population standard deviation
  of the flux. The ratio is the threshold itself when \<open>local_std\<close> is zero and also when
  a side window holds no sample, so the line passes in both cases.
\<close>

theorem filter_keeps_significant:
  "filter_and_prepare_linelist line_results continuum_spec0 (lo, hi) snr_ext window_width =
     concat (map (\<lambda>l.
       let observed = observed_wavelength l;
           sigma_max = fwhm l / (2 * sqrt (2 * ln 2));
           left = map snd (filter (\<lambda>s. fst s \<le> observed - 2 * sigma_max
                                       \<and> fst s \<ge> observed - 2 * sigma_max - window_width)
                             continuum_spec0);
           right = map snd (filter (\<lambda>s. fst s \<le> observed + 2 * sigma_max + window_width
                                        \<and> fst s \<ge> observed + 2 * sigma_max)
                              continuum_spec0);
           mean = (\<lambda>vs. sum_list vs / real (length vs));
           std = (\<lambda>vs. sqrt ((\<Sum>v\<leftarrow>vs. (v - mean vs)\<^sup>2) / real (length vs)));
           local_mean = (mean left + mean right) / 2;
           local_std = (std left + std right) / 2;
           snr = (if left = [] \<or> right = [] \<or> local_std = 0 then snr_ext
                  else (peak_flux l - local_mean) / local_std)
       in if lo \<le> observed \<and> observed \<le> hi \<and> (snr \<ge> snr_ext \<or> peak_flux l > 3 * snr_ext)
          then [\<lparr>name = line l, wavelength = observed, sigma = sigma_max,
                  min_loc = observed - 2 * sigma_max, max_loc = observed + 2 * sigma_max,
                  min_sd = 2, max_sd = 1.5 * sigma_max, max_flux = peak_flux l,
                  SNR = Some snr\<rparr>]
          else []) line_results)"
proof (induction line_results)
  case Nil
  then show ?case by simp
next
  case (Cons l ls)
  show ?case
    unfolding list.map concat.simps
    by (subst filter_step [OF snr_of_windows sigma_max_of_eq], subst Cons.IH)
       (unfold Let_def window_left_def window_right_def sigma_max_of_eq, rule refl)
qed

lemma sqrt_2ln2_window: "1 \<le> sqrt (2 * ln 2)" "sqrt (2 * ln 2) < 3 / 2"
proof -
  have "ln (1 / 2 :: real) \<le> 1 / 2 - 1" by (rule ln_le_minus_one) simp
  then have "1 \<le> 2 * ln (2 :: real)" by (simp add: ln_div)
  then have "sqrt 1 \<le> sqrt (2 * ln 2)" by (rule real_sqrt_le_mono)
  then show "1 \<le> sqrt (2 * ln 2)" by simp
  have "ln (2::real) \<le> 2 - 1" by (rule ln_le_minus_one) simp
  then have "2 * ln (2::real) < (3 / 2)\<^sup>2" by (simp add: power2_eq_square)
  then have "sqrt (2 * ln 2) < sqrt ((3 / 2)\<^sup>2)" by (rule real_sqrt_less_mono)
  then show "sqrt (2 * ln 2) < 3 / 2" by simp
qed

lemma sigma_max_of_window: "1 / 2 < sigma_max_of (3 / 2)" "sigma_max_of (3 / 2) \<le> 3 / 4"
proof -
  let ?s = "sqrt (2 * ln 2)"
  have p: "0 < 2 * ?s" using sqrt_2ln2_window(1) by simp
  have "1 / 2 * (2 * ?s) < 3 / 2" using sqrt_2ln2_window(2) by simp
  with p have "1 / 2 < 3 / 2 / (2 * ?s)" by (simp only: pos_less_divide_eq)
  then show "1 / 2 < sigma_max_of (3 / 2)" by (simp add: sigma_max_of_def)
  have "3 / 2 \<le> 3 / 4 * (2 * ?s)" using sqrt_2ln2_window(1) by simp
  with p have "3 / 2 / (2 * ?s) \<le> 3 / 4" by (simp only: pos_divide_le_eq)
  then show "sigma_max_of (3 / 2) \<le> 3 / 4" by (simp add: sigma_max_of_def)
qed

lemma sqrt_16: "sqrt 16 = 4"
  by (rule real_sqrt_unique) simp_all

lemma sample_fwhm: "fwhm sample_resolved / (2 * sqrt (2 * ln 2)) = sigma_max_of (3 / 2)"
  by (simp add: sample_resolved_def sigma_max_of_def)

text \<open>
  The statement of C4 on the line of the five-sample spectrum: the left window holds the
  sample at 4858, the right window the samples at 4863 and 4864, so \<open>local_mean\<close> is
  2.5, \<open>local_std\<close> is 2 and the ratio is 1.25. The line of peak flux 5 is kept
  for the threshold 1 and dropped for the threshold 2.
\<close>

theorem filter_keeps_significant_witness:
  "map SNR (filter_and_prepare_linelist [sample_resolved] sample_continuum (4800, 4900) 1 10)
     = [Some 1.25]
   \<and> map name (filter_and_prepare_linelist [sample_resolved] sample_continuum (4800, 4900)
                 2 10) = []"
proof -
  note s = sigma_max_of_window
  have "filter_and_prepare_linelist [sample_resolved] sample_continuum (4800, 4900) 1 10
          = [\<lparr>name = ''Hb'', wavelength = 4860, sigma = sigma_max_of (3 / 2),
               min_loc = 4860 - 2 * sigma_max_of (3 / 2),
               max_loc = 4860 + 2 * sigma_max_of (3 / 2),
               min_sd = 2, max_sd = 1.5 * sigma_max_of (3 / 2), max_flux = 5,
               SNR = Some 1.25\<rparr>]"
    using filter_keeps_significant [of "[sample_resolved]" sample_continuum 4800 4900 1 10] s
    unfolding list.map concat.simps Let_def sample_fwhm
    by (simp add: sample_resolved_def sample_continuum_def sqrt_16)
  moreover
  have "filter_and_prepare_linelist [sample_resolved] sample_continuum (4800, 4900) 2 10 = []"
    using filter_keeps_significant [of "[sample_resolved]" sample_continuum 4800 4900 2 10] s
    unfolding list.map concat.simps Let_def sample_fwhm
    by (simp add: sample_resolved_def sample_continuum_def sqrt_16)
  ultimately show ?thesis by simp
qed

lemma edge_fwhm: "fwhm edge_resolved = 3 / 2" "observed_wavelength edge_resolved = 4860"
  "peak_flux edge_resolved = 2" "line edge_resolved = ''Hb''"
  by (simp_all add: edge_resolved_def)

lemma edge_left:
  "window_left edge_continuum (4860 - 2 * sigma_max_of (3 / 2)) 10 = []"
  using sigma_max_of_window by (simp add: window_left_def edge_continuum_def)

lemma edge_std: "local_std_of edge_continuum 10 edge_resolved = None"
  by (simp add: local_std_of_def Let_def edge_fwhm edge_left np_std_def np_mean_def mean2_def)

text \<open>
  Claim C4 as stated fails. A line at 4860 of full width 1.5 in a spectrum that starts at
  4859 has no sample in its left window, so numpy leaves \<open>local_std\<close> undefined: it is
  not zero, and no ratio \<open>(peak_flux - local_mean) / local_std\<close> reaches the threshold.
  The peak flux 2 does not exceed three times the threshold 3 either. The comparison
  \<^verbatim>\<open>local_std > 0\<close> is false, the ratio is set to the threshold and the line is kept.
\<close>

theorem filter_keeps_significant_counterexample:
  "window_left edge_continuum
     (observed_wavelength edge_resolved - 2 * sigma_max_of (fwhm edge_resolved)) 10 = []
   \<and> local_std_of edge_continuum 10 edge_resolved = None
   \<and> \<not> peak_flux edge_resolved > 3 * 3
   \<and> map name (filter_and_prepare_linelist [edge_resolved] edge_continuum (4800, 4900) 3 10)
       = [''Hb'']
   \<and> map SNR (filter_and_prepare_linelist [edge_resolved] edge_continuum (4800, 4900) 3 10)
       = [Some 3]"
  by (simp add: edge_fwhm edge_left edge_std snr_of_def line_details_def Let_def)

section \<open>Properties of the table builder and of the bound rule\<close>

lemma table_row_sel [simp]:
  "line_name (table_row nm c n p mx mn) = nm"
  "model (table_row nm c n p mx mn) = c"
  "component (table_row nm c n p mx mn) = n"
  "parameters (table_row nm c n p mx mn) = p"
  "max_limits (table_row nm c n p mx mn) = Some mx"
  "min_limits (table_row nm c n p mx mn) = Some mn"
  by (simp_all add: table_row_def)

lemma lines_loop_Cons:
  "lines_loop d (l # ls) vars rows =
     (case map_of d (name l) of
        None \<Rightarrow> Inl (KeyError (name l))
      | Some entry \<Rightarrow>
          (case component_vars l (Suc 0) (em_components entry) vars of
             None \<Rightarrow> Inl (UnboundLocalError ''params_i'')
           | Some (p, mx, mn) \<Rightarrow>
               lines_loop d ls (Some (p, mx, mn))
                 (rows @ [table_row (name l) (em_components entry) 1 p mx mn])))"
  by (simp split: option.splits)

lemma lines_loop_rows:
  "lines_loop d fl vars rows = Inr rows' \<Longrightarrow>
     \<exists>new. rows' = rows @ new \<and> map line_name new = map name fl
         \<and> (\<forall>r \<in> set new. component r = 1)"
proof (induction fl arbitrary: vars rows)
  case Nil
  then show ?case by simp
next
  case (Cons l ls)
  from Cons.prems obtain entry :: emline and p mx mn where
    rest: "lines_loop d ls (Some (p, mx, mn))
             (rows @ [table_row (name l) (em_components entry) 1 p mx mn]) = Inr rows'"
    unfolding lines_loop_Cons by (auto split: option.splits)
  from Cons.IH [OF rest] obtain new where
    n: "rows' = (rows @ [table_row (name l) (em_components entry) 1 p mx mn]) @ new"
       "map line_name new = map name ls" "\<forall>r \<in> set new. component r = 1"
    by blast
  show ?case
    by (rule exI [of _ "table_row (name l) (em_components entry) 1 p mx mn # new"])
       (simp add: n)
qed

lemma component_vars_known:
  "c \<in> {''Gaussian'', ''Lorentzian'', ''Voigt''} \<Longrightarrow> \<exists>p mx mn. component_vars l n c vars = Some (p, mx, mn)"
  by (auto simp: component_vars_def)

lemma lines_loop_total:
  "\<forall>l \<in> set fl. \<exists>e. map_of d (name l) = Some e
       \<and> em_components e \<in> {''Gaussian'', ''Lorentzian'', ''Voigt''} \<Longrightarrow>
   \<exists>rows'. lines_loop d fl vars rows = Inr rows'"
proof (induction fl arbitrary: vars rows)
  case Nil
  then show ?case by simp
next
  case (Cons l ls)
  then obtain e where e: "map_of d (name l) = Some e"
    "em_components e \<in> {''Gaussian'', ''Lorentzian'', ''Voigt''}" by auto
  from component_vars_known [OF e(2)] obtain p mx mn where
    v: "component_vars l (Suc 0) (em_components e) vars = Some (p, mx, mn)"
    by blast
  from Cons.prems have "\<forall>l \<in> set ls. \<exists>e. map_of d (name l) = Some e
       \<and> em_components e \<in> {''Gaussian'', ''Lorentzian'', ''Voigt''}" by simp
  from Cons.IH [OF this] show ?case
    unfolding lines_loop_Cons by (simp add: e v)
qed



lemma reset_index_rows [simp]: "map snd (reset_index rows) = rows"
  by (simp add: reset_index_def default_index_def)

lemma reset_index_labels [simp]: "map fst (reset_index rows) = default_index (length rows)"
  by (simp add: reset_index_def default_index_def)

lemma df_rows_simp [simp]:
  "df_rows \<lparr>df_frame = fr, parameter_errors = pe\<rparr> = map snd fr"
  by (simp add: df_rows_def)

lemma initial_dataframe_parts:
  assumes "initial_dataframe d fl cp = Inr df"
  obtains rows where "lines_loop d fl None [] = Inr rows"
    "df_rows df = (case cp of None \<Rightarrow> rows | Some pars \<Rightarrow> rows @ [continuum_row pars])"
    "parameter_errors df = None"
  using assms
  by (auto simp: initial_dataframe_def split: sum.splits)

text \<open>
  Claim C2. When \<^verbatim>\<open>initial_dataframe\<close> returns, the table starts with one row per
  filtered line, in order, each with component index 1, followed by the continuum row
  (component 0, limits \<open>[0, 0, 0]\<close> and three infinities) exactly when continuum
  parameters are given; so it has one row per line plus one for the continuum. It does
  return whenever every line is in the catalog with one of the three models. With no
  lines and continuum parameters the table is the continuum row alone.
\<close>

theorem initial_dataframe_rows:
  "(initial_dataframe emlines_dict filtered_linelist continuum_pars = Inr dfparams \<longrightarrow>
      length (df_rows dfparams)
        = length filtered_linelist + (case continuum_pars of None \<Rightarrow> 0 | Some _ \<Rightarrow> 1)
      \<and> map line_name (take (length filtered_linelist) (df_rows dfparams))
          = map name filtered_linelist
      \<and> (\<forall>r \<in> set (take (length filtered_linelist) (df_rows dfparams)). component r = 1)
      \<and> drop (length filtered_linelist) (df_rows dfparams)
          = (case continuum_pars of None \<Rightarrow> [] | Some pars \<Rightarrow> [continuum_row pars]))
   \<and> ((\<forall>l \<in> set filtered_linelist. \<exists>e. map_of emlines_dict (name l) = Some e
           \<and> em_components e \<in> {''Gaussian'', ''Lorentzian'', ''Voigt''}) \<longrightarrow>
        (\<exists>df. initial_dataframe emlines_dict filtered_linelist continuum_pars = Inr df))
   \<and> initial_dataframe emlines_dict [] (Some pars)
        = Inr \<lparr>df_frame = [(0, continuum_row pars)], parameter_errors = None\<rparr>
   \<and> component (continuum_row pars) = 0
   \<and> min_limits (continuum_row pars) = Some [Fin 0, Fin 0, Fin 0]
   \<and> max_limits (continuum_row pars) = Some [PosInf, PosInf, PosInf]"
proof (intro conjI impI)
  assume a: "initial_dataframe emlines_dict filtered_linelist continuum_pars = Inr dfparams"
  then obtain rows where
    l: "lines_loop emlines_dict filtered_linelist None [] = Inr rows"
    and d: "df_rows dfparams
             = (case continuum_pars of None \<Rightarrow> rows | Some pars \<Rightarrow> rows @ [continuum_row pars])"
    by (rule initial_dataframe_parts)
  from lines_loop_rows [OF l] have
    n: "map line_name rows = map name filtered_linelist" "\<forall>r \<in> set rows. component r = 1"
    by auto
  from arg_cong [OF n(1), of length] have len: "length rows = length filtered_linelist"
    by simp
  show "length (df_rows dfparams)
        = length filtered_linelist + (case continuum_pars of None \<Rightarrow> 0 | Some _ \<Rightarrow> 1)"
    by (simp add: d len split: option.splits)
  show "map line_name (take (length filtered_linelist) (df_rows dfparams))
          = map name filtered_linelist"
    using n(1) by (simp add: d len [symmetric] split: option.splits)
  show "\<forall>r \<in> set (take (length filtered_linelist) (df_rows dfparams)). component r = 1"
    using n(2) by (simp add: d len [symmetric] split: option.splits)
  show "drop (length filtered_linelist) (df_rows dfparams)
          = (case continuum_pars of None \<Rightarrow> [] | Some pars \<Rightarrow> [continuum_row pars])"
    by (simp add: d len [symmetric] split: option.splits)
next
  assume "\<forall>l \<in> set filtered_linelist. \<exists>e. map_of emlines_dict (name l) = Some e
           \<and> em_components e \<in> {''Gaussian'', ''Lorentzian'', ''Voigt''}"
  from lines_loop_total [OF this, of None "[]"] obtain rows where
    "lines_loop emlines_dict filtered_linelist None [] = Inr rows" by blast
  then show "\<exists>df. initial_dataframe emlines_dict filtered_linelist continuum_pars = Inr df"
    by (simp add: initial_dataframe_def)
qed (simp_all add: initial_dataframe_def continuum_row_def reset_index_def default_index_def)

text \<open>The hypotheses of C2 hold on the one-line catalog.\<close>

theorem initial_dataframe_rows_witness:
  "initial_dataframe hbeta_catalog [hbeta_line] (Some [1, 2, 3])
     = Inr \<lparr>df_frame = [(0, table_row ''Hb'' ''Gaussian'' 1 [4861, 10, 3]
                               [Fin 4867, Fin 10, Fin 4.5] [Fin 4855, Fin 0, Fin 2]),
                         (1, continuum_row [1, 2, 3])],
            parameter_errors = None\<rparr>
   \<and> map_of hbeta_catalog (name hbeta_line)
       = Some \<lparr>em_wavelength = [Some 4861], em_components = ''Gaussian''\<rparr>
   \<and> length [table_row ''Hb'' ''Gaussian'' 1 [4861, 10, 3]
                [Fin 4867, Fin 10, Fin 4.5] [Fin 4855, Fin 0, Fin 2],
              continuum_row [1, 2, 3]] = length [hbeta_line] + 1
   \<and> component (table_row ''Hb'' ''Gaussian'' 1 [4861, 10, 3]
                   [Fin 4867, Fin 10, Fin 4.5] [Fin 4855, Fin 0, Fin 2]) = 1"
  using initial_dataframe_rows
    [of hbeta_catalog "[hbeta_line]" "Some [1, 2, 3]"
        "\<lparr>df_frame = [(0, table_row ''Hb'' ''Gaussian'' 1 [4861, 10, 3]
                               [Fin 4867, Fin 10, Fin 4.5] [Fin 4855, Fin 0, Fin 2]),
                         (1, continuum_row [1, 2, 3])],
            parameter_errors = None\<rparr>" "[1, 2, 3]"]
  by (simp add: initial_dataframe_def hbeta_catalog_def hbeta_line_def component_vars_def
        reset_index_def default_index_def upt_rec)

lemma bounds_invariant_table_row [simp]:
  "bounds_invariant (table_row nm c n p mx mn) = vector_within mn p mx"
  by (simp add: bounds_invariant_def)

lemma component_vars_within:
  assumes "line_in_bounds l"
    and "\<And>p mx mn. vars = Some (p, mx, mn) \<Longrightarrow> vector_within mn p mx"
    and "component_vars l (Suc 0) c vars = Some (p, mx, mn)"
  shows "vector_within mn p mx"
proof (cases "c = ''Voigt'' \<or> c = ''Gaussian'' \<or> c = ''Lorentzian''")
  case True
  with assms(1,3) show ?thesis
    by (auto simp: component_vars_def line_in_bounds_def vector_within_def)
next
  case False
  with assms(3) have "vars = Some (p, mx, mn)"
    by (simp add: component_vars_def)
  then show ?thesis by (rule assms(2))
qed

lemma lines_loop_within:
  assumes "\<forall>l \<in> set fl. line_in_bounds l"
    and "\<And>p mx mn. vars = Some (p, mx, mn) \<Longrightarrow> vector_within mn p mx"
    and "\<forall>r \<in> set rows. bounds_invariant r"
    and "lines_loop d fl vars rows = Inr rows'"
  shows "\<forall>r \<in> set rows'. bounds_invariant r"
  using assms
proof (induction fl arbitrary: vars rows)
  case Nil
  then show ?case by simp
next
  case (Cons l ls)
  from Cons.prems(4) obtain entry :: emline and p mx mn where
    v: "component_vars l (Suc 0) (em_components entry) vars = Some (p, mx, mn)"
    and rest: "lines_loop d ls (Some (p, mx, mn))
             (rows @ [table_row (name l) (em_components entry) 1 p mx mn]) = Inr rows'"
    unfolding lines_loop_Cons by (auto split: option.splits)
  from Cons.prems(1) have l: "line_in_bounds l" by simp
  have w: "vector_within mn p mx"
    using l Cons.prems(2) v by (rule component_vars_within)
  show ?case
  proof (rule Cons.IH [OF _ _ _ rest])
    show "\<forall>l \<in> set ls. line_in_bounds l" using Cons.prems(1) by simp
    show "\<And>p' mx' mn'. Some (p, mx, mn) = Some (p', mx', mn') \<Longrightarrow> vector_within mn' p' mx'"
      using w by simp
    show "\<forall>r \<in> set (rows @ [table_row (name l) (em_components entry) 1 p mx mn]).
            bounds_invariant r"
      using Cons.prems(3) w by simp
  qed
qed

lemma row_limits_known:
  "row_limits df r None = Some lms \<Longrightarrow> row_limits df r vars = Some lms"
  by (simp add: row_limits_def Let_def split: if_splits)

lemma minmax_loop_result:
  "minmax_loop df rs vars mins maxs = Inr (mins', maxs') \<Longrightarrow>
     \<exists>nmin nmax. mins' = mins @ nmin \<and> maxs' = maxs @ nmax
        \<and> length nmin = length rs \<and> length nmax = length rs
        \<and> (\<forall>i < length rs. \<forall>mn mx. row_limits df (rs ! i) None = Some (mn, mx)
              \<longrightarrow> nmin ! i = mn \<and> nmax ! i = mx)"
proof (induction rs arbitrary: vars mins maxs)
  case Nil
  then show ?case by simp
next
  case (Cons r rs)
  from Cons.prems obtain min_i max_i where
    v: "row_limits df r vars = Some (min_i, max_i)"
    and rest: "minmax_loop df rs (Some (min_i, max_i)) (mins @ [min_i]) (maxs @ [max_i])
                 = Inr (mins', maxs')"
    by (auto split: if_splits option.splits)
  from Cons.IH [OF rest] obtain nmin nmax where
    n: "mins' = (mins @ [min_i]) @ nmin" "maxs' = (maxs @ [max_i]) @ nmax"
       "length nmin = length rs" "length nmax = length rs"
       "\<forall>i < length rs. \<forall>mn mx. row_limits df (rs ! i) None = Some (mn, mx)
              \<longrightarrow> nmin ! i = mn \<and> nmax ! i = mx"
    by blast
  have here: "\<forall>mn mx. row_limits df r None = Some (mn, mx) \<longrightarrow> min_i = mn \<and> max_i = mx"
    using v row_limits_known [of df r _ vars] by auto
  have "\<forall>i < length (r # rs). \<forall>mn mx. row_limits df ((r # rs) ! i) None = Some (mn, mx)
              \<longrightarrow> (min_i # nmin) ! i = mn \<and> (max_i # nmax) ! i = mx"
  proof (intro allI impI)
    fix i mn mx
    assume i: "i < length (r # rs)" and l: "row_limits df ((r # rs) ! i) None = Some (mn, mx)"
    show "(min_i # nmin) ! i = mn \<and> (max_i # nmax) ! i = mx"
    proof (cases i)
      case 0
      with l here show ?thesis by simp
    next
      case (Suc k)
      with i l n(5) show ?thesis by simp
    qed
  qed
  then show ?case
    by (intro exI [of _ "min_i # nmin"] exI [of _ "max_i # nmax"]) (simp add: n)
qed

lemma minmaxlim_result:
  assumes "minmaxlim df = Inr (mins, maxs)"
  shows "length mins = length df" and "length maxs = length df"
    and "i < length df \<Longrightarrow> row_limits df (df ! i) None = Some (mn, mx)
           \<Longrightarrow> mins ! i = mn \<and> maxs ! i = mx"
  using minmax_loop_result [OF assms [unfolded minmaxlim_def]] by auto

lemma sigma_filter_shape:
  assumes "l \<in> set (filter_and_prepare_linelist rs cs rng thr ww)"
  shows "min_loc l = wavelength l - 2 * sigma l" "max_loc l = wavelength l + 2 * sigma l"
    "min_sd l = 2" "max_sd l = 1.5 * sigma l"
proof -
  have "set (filter_and_prepare_linelist rs cs rng thr ww) \<subseteq> line_details cs ww thr ` set rs"
    by (induction rs) (auto simp: Let_def)
  with assms obtain r where "l = line_details cs ww thr r" by auto
  then show "min_loc l = wavelength l - 2 * sigma l" "max_loc l = wavelength l + 2 * sigma l"
    "min_sd l = 2" "max_sd l = 1.5 * sigma l"
    by (simp_all add: line_details_def Let_def)
qed

lemma shaped_line_in_bounds:
  assumes "min_loc l = wavelength l - 2 * sigma l" "max_loc l = wavelength l + 2 * sigma l"
    "min_sd l = 2" "max_sd l = 1.5 * sigma l"
  shows "line_in_bounds l \<longleftrightarrow> 2 \<le> sigma l \<and> 0 \<le> max_flux l"
  by (auto simp: line_in_bounds_def assms)

lemma component_vars_iff:
  assumes "c \<in> {''Gaussian'', ''Lorentzian'', ''Voigt''}"
    and "component_vars l (Suc 0) c vars = Some (p, mx, mn)"
  shows "vector_within mn p mx \<longleftrightarrow> line_in_bounds l"
  using assms
  by (auto simp: component_vars_def line_in_bounds_def vector_within_def split: if_splits)

lemma lines_loop_necessary:
  assumes "\<forall>l \<in> set fl. \<exists>e. map_of d (name l) = Some e
       \<and> em_components e \<in> {''Gaussian'', ''Lorentzian'', ''Voigt''}"
    and "lines_loop d fl vars rows = Inr rows'"
    and "\<forall>r \<in> set rows'. bounds_invariant r"
  shows "\<forall>l \<in> set fl. line_in_bounds l"
  using assms
proof (induction fl arbitrary: vars rows)
  case Nil
  then show ?case by simp
next
  case (Cons l ls)
  from Cons.prems(1) obtain e where e: "map_of d (name l) = Some e"
    "em_components e \<in> {''Gaussian'', ''Lorentzian'', ''Voigt''}" by auto
  from Cons.prems(2) e(1) obtain p mx mn where
    v: "component_vars l (Suc 0) (em_components e) vars = Some (p, mx, mn)"
    and rest: "lines_loop d ls (Some (p, mx, mn))
             (rows @ [table_row (name l) (em_components e) 1 p mx mn]) = Inr rows'"
    unfolding lines_loop_Cons by (auto split: option.splits)
  from lines_loop_rows [OF rest] obtain new where
    "rows' = (rows @ [table_row (name l) (em_components e) 1 p mx mn]) @ new" by blast
  with Cons.prems(3) have "bounds_invariant (table_row (name l) (em_components e) 1 p mx mn)"
    by simp
  then have "line_in_bounds l"
    using component_vars_iff [OF e(2) v] by simp
  moreover have "\<forall>l \<in> set ls. line_in_bounds l"
    using Cons.prems(1) Cons.prems(3) by (intro Cons.IH [OF _ rest]) simp_all
  ultimately show ?case by simp
qed

lemma continuum_row_iff:
  "bounds_invariant (continuum_row pars) \<longleftrightarrow> length pars = 3 \<and> list_all (\<lambda>v. 0 \<le> v) pars"
proof (cases "length pars = 3")
  case True
  then obtain a b c where p: "pars = [a, b, c]"
    by (auto simp: length_Suc_conv numeral_3_eq_3)
  then show ?thesis
    by (simp add: bounds_invariant_def continuum_row_def vector_within_def)
next
  case False
  then show ?thesis
    by (auto simp: bounds_invariant_def continuum_row_def vector_within_def
             dest: list_all2_lengthD)
qed

lemma initial_dataframe_within:
  assumes "initial_dataframe d fl cp = Inr df"
    and "\<forall>l \<in> set fl. line_in_bounds l"
    and "continuum_in_bounds cp"
  shows "\<forall>r \<in> set (df_rows df). bounds_invariant r"
proof -
  from assms(1) obtain rows where
    l: "lines_loop d fl None [] = Inr rows"
    and d: "df_rows df = (case cp of None \<Rightarrow> rows | Some pars \<Rightarrow> rows @ [continuum_row pars])"
    by (rule initial_dataframe_parts)
  have r: "\<forall>r \<in> set rows. bounds_invariant r"
    by (rule lines_loop_within [OF assms(2) _ _ l]) simp_all
  show ?thesis
    using r assms(3)
    by (auto simp: d continuum_in_bounds_def continuum_row_iff split: option.splits)
qed

lemma initial_dataframe_necessary:
  assumes "initial_dataframe d fl cp = Inr df"
    and "\<forall>l \<in> set fl. \<exists>e. map_of d (name l) = Some e
       \<and> em_components e \<in> {''Gaussian'', ''Lorentzian'', ''Voigt''}"
    and "\<forall>r \<in> set (df_rows df). bounds_invariant r"
  shows "(\<forall>l \<in> set fl. line_in_bounds l) \<and> continuum_in_bounds cp"
proof -
  from assms(1) obtain rows where
    l: "lines_loop d fl None [] = Inr rows"
    and d: "df_rows df = (case cp of None \<Rightarrow> rows | Some pars \<Rightarrow> rows @ [continuum_row pars])"
    by (rule initial_dataframe_parts)
  from assms(3) have r: "\<forall>r \<in> set rows. bounds_invariant r"
    by (auto simp: d split: option.splits)
  from assms(3) have c: "continuum_in_bounds cp"
    by (auto simp: d continuum_in_bounds_def continuum_row_iff split: option.splits)
  from lines_loop_necessary [OF assms(2) l r] c show ?thesis by simp
qed

lemma pow2_ge1_iff: "1 \<le> pow2 k \<longleftrightarrow> 0 \<le> k"
proof (cases "0 \<le> k")
  case True
  then show ?thesis by (simp add: pow2_def)
next
  case False
  then have "0 < nat (- k)" by simp
  then have "(1::real) < 2 ^ nat (- k)" by (simp add: one_less_power)
  then have "\<not> (2::real) ^ nat (- k) \<le> 1" by linarith
  with False show ?thesis by (simp add: pow2_def del: power_le_one_iff)
qed

lemma amplitude_factor_ge1_iff: "1 \<le> amplitude_factor df r \<longleftrightarrow> 1 \<le> component r"
  by (auto simp: amplitude_factor_def Let_def pow2_ge1_iff)

lemma amplitude_within_iff:
  "0 \<le> parameters r ! 1 \<and> parameters r ! 1 \<le> parameters r ! 1 * amplitude_factor df r
     \<longleftrightarrow> amplitude_in_bounds r"
proof (cases "0 < parameters r ! 1")
  case True
  then show ?thesis
    using amplitude_factor_ge1_iff [of df r]
    by (simp add: amplitude_in_bounds_def mult_le_cancel_left1)
next
  case False
  then show ?thesis by (auto simp: amplitude_in_bounds_def)
qed

lemma row_limits_iff:
  assumes "model r \<in> {''Gaussian'', ''Lorentzian'', ''Voigt'', ''Continuum''}"
  shows "\<exists>mn mx. row_limits df r None = Some (mn, mx)
           \<and> (vector_within mn (parameters r) mx \<longleftrightarrow> row_above_floor r)"
proof -
  let ?p = "parameters r"
  note amp = amplitude_within_iff [of r df]
  consider (g) "model r = ''Gaussian''" | (l) "model r = ''Lorentzian''"
    | (v) "model r = ''Voigt''" | (c) "model r = ''Continuum''"
    using assms by auto
  then show ?thesis
  proof cases
    case g
    show ?thesis
    proof (cases "length ?p = 3")
      case True
      then obtain a b c where p: "?p = [a, b, c]"
        by (auto simp: length_Suc_conv numeral_3_eq_3)
      from amp show ?thesis
        by (auto simp: row_limits_def g p vector_within_def row_above_floor_def)
    next
      case False
      then show ?thesis
        by (auto simp: row_limits_def Let_def g vector_within_def row_above_floor_def
                 dest: list_all2_lengthD)
    qed
  next
    case l
    show ?thesis
    proof (cases "length ?p = 3")
      case True
      then obtain a b c where p: "?p = [a, b, c]"
        by (auto simp: length_Suc_conv numeral_3_eq_3)
      from amp show ?thesis
        by (auto simp: row_limits_def l p vector_within_def row_above_floor_def)
    next
      case False
      then show ?thesis
        by (auto simp: row_limits_def Let_def l vector_within_def row_above_floor_def
                 dest: list_all2_lengthD)
    qed
  next
    case v
    show ?thesis
    proof (cases "length ?p = 4")
      case True
      then obtain a b c d where p: "?p = [a, b, c, d]"
        by (auto simp: length_Suc_conv numeral_eq_Suc)
      from amp show ?thesis
        by (auto simp: row_limits_def v p vector_within_def row_above_floor_def
                 numeral_eq_Suc)
    next
      case False
      then show ?thesis
        by (auto simp: row_limits_def Let_def v vector_within_def row_above_floor_def
                 dest: list_all2_lengthD)
    qed
  next
    case c
    show ?thesis
    proof (cases "length ?p = 3")
      case True
      then obtain a b c' where p: "?p = [a, b, c']"
        by (auto simp: length_Suc_conv numeral_3_eq_3)
      show ?thesis
        by (auto simp: row_limits_def c p vector_within_def row_above_floor_def)
    next
      case False
      then show ?thesis
        by (auto simp: row_limits_def Let_def c vector_within_def row_above_floor_def
                 dest: list_all2_lengthD)
    qed
  qed
qed

lemma minmaxlim_iff:
  assumes "minmaxlim rows = Inr (mins, maxs)" and "i < length rows"
    and "model (rows ! i) \<in> {''Gaussian'', ''Lorentzian'', ''Voigt'', ''Continuum''}"
  shows "vector_within (mins ! i) (parameters (rows ! i)) (maxs ! i)
           \<longleftrightarrow> row_above_floor (rows ! i)"
proof -
  from row_limits_iff [OF assms(3), of rows] obtain mn mx where
    l: "row_limits rows (rows ! i) None = Some (mn, mx)"
    and w: "vector_within mn (parameters (rows ! i)) mx \<longleftrightarrow> row_above_floor (rows ! i)"
    by blast
  from minmaxlim_result(3) [OF assms(1,2) l] w show ?thesis by simp
qed

lemma sqrt_2ln2_bounds: "0 < sqrt (2 * ln 2)" "sqrt (2 * ln 2) \<le> 2"
proof -
  have p: "0 < ln (2::real)" by simp
  then show "0 < sqrt (2 * ln 2)" by simp
  have "ln (2::real) \<le> 2 - 1" by (rule ln_le_minus_one) simp
  then have "2 * ln (2::real) \<le> 4" by simp
  then have "sqrt (2 * ln 2) \<le> sqrt 4" by (rule real_sqrt_le_mono)
  then show "sqrt (2 * ln 2) \<le> 2" by simp
qed

lemma sigma_max_of_8: "2 \<le> sigma_max_of 8"
proof -
  let ?s = "sqrt (2 * ln 2)"
  have "2 * (2 * ?s) \<le> 8" using sqrt_2ln2_bounds(2) by simp
  moreover have "0 < 2 * ?s" using sqrt_2ln2_bounds(1) by simp
  ultimately have "2 \<le> 8 / (2 * ?s)" by (simp add: pos_le_divide_eq)
  then show ?thesis by (simp add: sigma_max_of_def)
qed

lemma wide_line_fields:
  "name wide_line = ''Hb''" "sigma wide_line = sigma_max_of 8" "max_flux wide_line = 10"
  by (simp_all add: wide_line_def line_details_def wide_resolved_def Let_def)

lemma wide_filter:
  "filter_and_prepare_linelist [wide_resolved] sample_continuum (4800, 4900) 1 10 = [wide_line]"
proof -
  have "observed_wavelength wide_resolved = 4861" "peak_flux wide_resolved = 10"
    by (simp_all add: wide_resolved_def)
  then show ?thesis by (simp add: wide_line_def)
qed

lemma wide_build:
  "initial_dataframe hbeta_catalog [wide_line] (Some [1, 2, 3]) = Inr wide_table"
  by (simp add: initial_dataframe_def hbeta_catalog_def wide_line_fields component_vars_def
        wide_table_def reset_index_def default_index_def upt_rec)

text \<open>
  Claim C1, as amended. Entry by entry, \<open>min \<le> value \<le> max\<close> holds in every row that
  \<^verbatim>\<open>initial_dataframe\<close> builds from the output of the filter when every line has a width
  of at least 2.0 and a peak flux that is not negative and the continuum parameters,
  if any, are three numbers that are not negative; with a catalog of the three models
  it holds in no other case. For a row of one of the four models that \<^verbatim>\<open>minmaxlim\<close>
  bounds, it holds exactly when the vector has the length of the model, the amplitude
  is not negative and, unless it is zero, the component index is at least 1, and the
  widths are at or above the fixed floors (2.0; 2.22 for the Lorentzian width; the
  Voigt second width between 2.22 and 1.665 times the first); for a continuum row,
  exactly when its second parameter is not negative.
\<close>

theorem bounds_invariant_above_floor:
  assumes "filtered_linelist = filter_and_prepare_linelist line_results continuum_spec0
             wavelength_range snr_ext window_width"
  shows "(initial_dataframe emlines_dict filtered_linelist continuum_pars = Inr dfparams \<longrightarrow>
      ((\<forall>l \<in> set filtered_linelist. 2 \<le> sigma l \<and> 0 \<le> max_flux l)
         \<and> continuum_in_bounds continuum_pars \<longrightarrow>
       (\<forall>r \<in> set (df_rows dfparams). bounds_invariant r))
      \<and> ((\<forall>l \<in> set filtered_linelist. \<exists>e. map_of emlines_dict (name l) = Some e
             \<and> em_components e \<in> {''Gaussian'', ''Lorentzian'', ''Voigt''}) \<longrightarrow>
          (\<forall>r \<in> set (df_rows dfparams). bounds_invariant r) \<longrightarrow>
          (\<forall>l \<in> set filtered_linelist. 2 \<le> sigma l \<and> 0 \<le> max_flux l)
            \<and> continuum_in_bounds continuum_pars))
   \<and> (minmaxlim rows = Inr (mins, maxs) \<longrightarrow>
      (\<forall>i < length rows.
         model (rows ! i) \<in> {''Gaussian'', ''Lorentzian'', ''Voigt'', ''Continuum''} \<longrightarrow>
         (vector_within (mins ! i) (parameters (rows ! i)) (maxs ! i)
            \<longleftrightarrow> row_above_floor (rows ! i))))"
proof -
  have shape: "\<forall>l \<in> set filtered_linelist.
                 (line_in_bounds l \<longleftrightarrow> 2 \<le> sigma l \<and> 0 \<le> max_flux l)"
  proof
    fix l assume "l \<in> set filtered_linelist"
    then have "l \<in> set (filter_and_prepare_linelist line_results continuum_spec0
             wavelength_range snr_ext window_width)" by (simp add: assms)
    from sigma_filter_shape [OF this]
    show "line_in_bounds l \<longleftrightarrow> 2 \<le> sigma l \<and> 0 \<le> max_flux l"
      by (rule shaped_line_in_bounds)
  qed
  have a: "initial_dataframe emlines_dict filtered_linelist continuum_pars = Inr dfparams \<longrightarrow>
      ((\<forall>l \<in> set filtered_linelist. 2 \<le> sigma l \<and> 0 \<le> max_flux l)
         \<and> continuum_in_bounds continuum_pars \<longrightarrow>
       (\<forall>r \<in> set (df_rows dfparams). bounds_invariant r))"
    using initial_dataframe_within [of emlines_dict filtered_linelist continuum_pars dfparams]
      shape by blast
  have b: "initial_dataframe emlines_dict filtered_linelist continuum_pars = Inr dfparams \<longrightarrow>
      ((\<forall>l \<in> set filtered_linelist. \<exists>e. map_of emlines_dict (name l) = Some e
             \<and> em_components e \<in> {''Gaussian'', ''Lorentzian'', ''Voigt''}) \<longrightarrow>
          (\<forall>r \<in> set (df_rows dfparams). bounds_invariant r) \<longrightarrow>
          (\<forall>l \<in> set filtered_linelist. 2 \<le> sigma l \<and> 0 \<le> max_flux l)
            \<and> continuum_in_bounds continuum_pars)"
  proof (intro impI)
    assume i: "initial_dataframe emlines_dict filtered_linelist continuum_pars = Inr dfparams"
      and k: "\<forall>l \<in> set filtered_linelist. \<exists>e. map_of emlines_dict (name l) = Some e
             \<and> em_components e \<in> {''Gaussian'', ''Lorentzian'', ''Voigt''}"
      and r: "\<forall>r \<in> set (df_rows dfparams). bounds_invariant r"
    from initial_dataframe_necessary [OF i k r] shape
    show "(\<forall>l \<in> set filtered_linelist. 2 \<le> sigma l \<and> 0 \<le> max_flux l)
            \<and> continuum_in_bounds continuum_pars" by blast
  qed
  have c: "minmaxlim rows = Inr (mins, maxs) \<longrightarrow>
      (\<forall>i < length rows.
         model (rows ! i) \<in> {''Gaussian'', ''Lorentzian'', ''Voigt'', ''Continuum''} \<longrightarrow>
         (vector_within (mins ! i) (parameters (rows ! i)) (maxs ! i)
            \<longleftrightarrow> row_above_floor (rows ! i)))"
    using minmaxlim_iff [of rows mins maxs] by blast
  from a b c show ?thesis by blast
qed

text \<open>
  The hypotheses of C1 hold on a line of half-maximum width 8 kept by the filter, and on
  a Gaussian row of width 3.
\<close>

theorem bounds_invariant_above_floor_witness:
  "[wide_line] = filter_and_prepare_linelist [wide_resolved] sample_continuum (4800, 4900) 1 10
   \<and> initial_dataframe hbeta_catalog [wide_line] (Some [1, 2, 3]) = Inr wide_table
   \<and> 2 \<le> sigma wide_line \<and> 0 \<le> max_flux wide_line
   \<and> continuum_in_bounds (Some [1, 2, 3])
   \<and> list_all bounds_invariant (df_rows wide_table)
   \<and> minmaxlim [gaussian_row 3] = Inr ([[Fin 4855, Fin 0, Fin 2]], [[Fin 4867, Fin 10, Fin 4.5]])
   \<and> row_above_floor (gaussian_row 3)
   \<and> vector_within [Fin 4855, Fin 0, Fin 2] (parameters (gaussian_row 3))
        [Fin 4867, Fin 10, Fin 4.5]"
proof -
  have f: "[wide_line] = filter_and_prepare_linelist [wide_resolved] sample_continuum
             (4800, 4900) 1 10" by (rule wide_filter [symmetric])
  have s: "2 \<le> sigma wide_line" "0 \<le> max_flux wide_line"
    by (simp_all add: wide_line_fields sigma_max_of_8)
  have c: "continuum_in_bounds (Some [1, 2, 3])" by (simp add: continuum_in_bounds_def)
  have m: "minmaxlim [gaussian_row 3]
             = Inr ([[Fin 4855, Fin 0, Fin 2]], [[Fin 4867, Fin 10, Fin 4.5]])"
    by (simp add: minmaxlim_def row_limits_def amplitude_factor_def line_rows_def
          gaussian_row_def)
  have r: "row_above_floor (gaussian_row 3)"
    by (simp add: row_above_floor_def amplitude_in_bounds_def gaussian_row_def)
  note t = bounds_invariant_above_floor [OF f, of hbeta_catalog "Some [1, 2, 3]" wide_table
      "[gaussian_row 3]" "[[Fin 4855, Fin 0, Fin 2]]" "[[Fin 4867, Fin 10, Fin 4.5]]"]
  have inv: "list_all bounds_invariant (df_rows wide_table)"
    using t wide_build s c by (simp add: list_all_iff)
  have "model (gaussian_row 3) = ''Gaussian''" by (simp add: gaussian_row_def)
  with t m r have vw: "vector_within [Fin 4855, Fin 0, Fin 2] (parameters (gaussian_row 3))
        [Fin 4867, Fin 10, Fin 4.5]"
    by simp
  from f wide_build s c inv m r vw show ?thesis by blast
qed

text \<open>
  Claim C1 as stated fails. From a line of width 1, from a line of negative peak flux,
  from a negative continuum parameter and from two continuum parameters in place of three
  \<^verbatim>\<open>initial_dataframe\<close> builds a row that breaks its bounds. \<^verbatim>\<open>minmaxlim\<close> breaks them for a width of 1, a negative amplitude, a component
  numbered 0, a second Voigt width of 1, a negative second continuum parameter, a Voigt
  row of three parameters, and a row of a model outside the four, which gets the bounds of
  the row before it.
\<close>

theorem bounds_invariant_narrow_line_counterexample:
  "initial_dataframe hbeta_catalog [hbeta_narrow] None
     = Inr \<lparr>df_frame = [(0, table_row ''Hb'' ''Gaussian'' 1 [4861, 10, 1]
                               [Fin 4863, Fin 10, Fin 1.5] [Fin 4859, Fin 0, Fin 2])],
            parameter_errors = None\<rparr>
   \<and> \<not> bounds_invariant (table_row ''Hb'' ''Gaussian'' 1 [4861, 10, 1]
                          [Fin 4863, Fin 10, Fin 1.5] [Fin 4859, Fin 0, Fin 2])
   \<and> initial_dataframe hbeta_catalog [hbeta_negative] None
     = Inr \<lparr>df_frame = [(0, table_row ''Hb'' ''Gaussian'' 1 [4861, - 1, 3]
                               [Fin 4867, Fin (- 1), Fin 4.5] [Fin 4855, Fin 0, Fin 2])],
            parameter_errors = None\<rparr>
   \<and> \<not> bounds_invariant (table_row ''Hb'' ''Gaussian'' 1 [4861, - 1, 3]
                          [Fin 4867, Fin (- 1), Fin 4.5] [Fin 4855, Fin 0, Fin 2])
   \<and> initial_dataframe hbeta_catalog [] (Some [- 1, 2, 3])
     = Inr \<lparr>df_frame = [(0, continuum_row [- 1, 2, 3])], parameter_errors = None\<rparr>
   \<and> \<not> bounds_invariant (continuum_row [- 1, 2, 3])
   \<and> initial_dataframe hbeta_catalog [] (Some [1, 2])
     = Inr \<lparr>df_frame = [(0, continuum_row [1, 2])], parameter_errors = None\<rparr>
   \<and> \<not> bounds_invariant (continuum_row [1, 2])
   \<and> minmaxlim [gaussian_row 1] = Inr ([[Fin 4859, Fin 0, Fin 2]], [[Fin 4863, Fin 10, Fin 1.5]])
   \<and> \<not> vector_within [Fin 4859, Fin 0, Fin 2] (parameters (gaussian_row 1))
          [Fin 4863, Fin 10, Fin 1.5]
   \<and> minmaxlim [sample_row ''Gaussian'' 1 [6563, - 10, 3]]
       = Inr ([[Fin 6557, Fin 0, Fin 2]], [[Fin 6569, Fin (- 10), Fin 4.5]])
   \<and> \<not> vector_within [Fin 6557, Fin 0, Fin 2] [6563, - 10, 3]
          [Fin 6569, Fin (- 10), Fin 4.5]
   \<and> minmaxlim [sample_row ''Gaussian'' 0 [6563, 10, 3]]
       = Inr ([[Fin 6557, Fin 0, Fin 2]], [[Fin 6569, Fin 5, Fin 4.5]])
   \<and> \<not> vector_within [Fin 6557, Fin 0, Fin 2] [6563, 10, 3] [Fin 6569, Fin 5, Fin 4.5]
   \<and> minmaxlim [sample_row ''Voigt'' 1 [6563, 10, 3, 1]]
       = Inr ([[Fin 6557, Fin 0, Fin 2, Fin 2.22]], [[Fin 6569, Fin 10, Fin 4.5, Fin 4.995]])
   \<and> \<not> vector_within [Fin 6557, Fin 0, Fin 2, Fin 2.22] [6563, 10, 3, 1]
          [Fin 6569, Fin 10, Fin 4.5, Fin 4.995]
   \<and> minmaxlim [sample_row ''Continuum'' 0 [1, - 2, 3]]
       = Inr ([[NegInf, Fin 0, NegInf]], [[PosInf, PosInf, PosInf]])
   \<and> \<not> vector_within [NegInf, Fin 0, NegInf] [1, - 2, 3] [PosInf, PosInf, PosInf]
   \<and> minmaxlim [sample_row ''Voigt'' 2 [6563, 5, 3]]
       = Inr ([[Fin 6557, Fin 0, Fin 2, Fin 2.22]], [[Fin 6569, Fin 10, Fin 4.5, Fin 4.995]])
   \<and> \<not> vector_within [Fin 6557, Fin 0, Fin 2, Fin 2.22] [6563, 5, 3]
          [Fin 6569, Fin 10, Fin 4.5, Fin 4.995]
   \<and> minmaxlim [gaussian_row 3, sample_row ''Moffat'' 1 [6563, 8, 4]]
       = Inr ([[Fin 4855, Fin 0, Fin 2], [Fin 4855, Fin 0, Fin 2]],
              [[Fin 4867, Fin 10, Fin 4.5], [Fin 4867, Fin 10, Fin 4.5]])
   \<and> \<not> vector_within [Fin 4855, Fin 0, Fin 2] [6563, 8, 4] [Fin 4867, Fin 10, Fin 4.5]"
  by (simp add: initial_dataframe_def hbeta_catalog_def hbeta_narrow_def hbeta_negative_def
        component_vars_def reset_index_def default_index_def upt_rec
        minmaxlim_def row_limits_def amplitude_factor_def line_rows_def pow2_def
        gaussian_row_def sample_row_def bounds_invariant_def vector_within_def
        continuum_row_def)

section \<open>Properties of the component expander\<close>

lemma set_take_drop: "set (take k xs) \<union> set (drop k xs) = set xs"
  by (metis append_take_drop_id set_append)

lemma add_component_result:
  assumes "add_component fr l cs = Inr fr'"
  shows "l \<in> set (map (\<lambda>lr. line_name (snd lr)) fr)
           \<longrightarrow> map fst fr' = default_index (length fr')"
    and "l \<notin> set (map (\<lambda>lr. line_name (snd lr)) fr) \<longrightarrow> fr' = fr"
    and "set (map (\<lambda>lr. line_name (snd lr)) fr') = set (map (\<lambda>lr. line_name (snd lr)) fr)"
proof -
  show "l \<notin> set (map (\<lambda>lr. line_name (snd lr)) fr) \<longrightarrow> fr' = fr"
    using assms by (auto simp: add_component_def)
  have shape: "l \<in> set (map (\<lambda>lr. line_name (snd lr)) fr) \<Longrightarrow>
      \<exists>k x. line_name x = l \<and> fr' = reset_index (map snd (take k fr) @ [x] @ map snd (drop k fr))"
  proof -
    assume m: "l \<in> set (map (\<lambda>lr. line_name (snd lr)) fr)"
    let ?hit = "last (filter (\<lambda>lr. line_name (snd lr) = l) fr)"
    obtain c0 cs' where cs: "cs = c0 # cs'"
      using assms m by (cases cs) (simp_all add: add_component_def)
    from assms m cs have
      "fr' = reset_index (map snd (take (slice_pos (fst ?hit + 1) (length fr)) fr)
               @ [\<lparr>line_name = l, model = c0, component = component (snd ?hit) + 1,
                    parameters = [parameters (snd ?hit) ! 0, parameters (snd ?hit) ! 1 / 2,
                                  parameters (snd ?hit) ! 2],
                    max_limits = None, min_limits = None\<rparr>]
               @ map snd (drop (slice_pos (fst ?hit + 1) (length fr)) fr))"
      by (simp add: add_component_def Let_def split: if_splits)
    then show ?thesis
      by (intro exI [of _ "slice_pos (fst ?hit + 1) (length fr)"]
                exI [of _ "\<lparr>line_name = l, model = c0, component = component (snd ?hit) + 1,
                    parameters = [parameters (snd ?hit) ! 0, parameters (snd ?hit) ! 1 / 2,
                                  parameters (snd ?hit) ! 2],
                    max_limits = None, min_limits = None\<rparr>"]) simp
  qed
  show "l \<in> set (map (\<lambda>lr. line_name (snd lr)) fr)
           \<longrightarrow> map fst fr' = default_index (length fr')"
  proof
    assume "l \<in> set (map (\<lambda>lr. line_name (snd lr)) fr)"
    from shape [OF this] obtain rows where "fr' = reset_index rows" by blast
    then show "map fst fr' = default_index (length fr')"
      by (simp add: reset_index_def default_index_def)
  qed
  show "set (map (\<lambda>lr. line_name (snd lr)) fr') = set (map (\<lambda>lr. line_name (snd lr)) fr)"
  proof (cases "l \<in> set (map (\<lambda>lr. line_name (snd lr)) fr)")
    case True
    from shape [OF True] obtain k x where x: "line_name x = l"
      and f: "fr' = reset_index (map snd (take k fr) @ [x] @ map snd (drop k fr))" by blast
    have "map (\<lambda>lr. line_name (snd lr)) fr'
            = map line_name (map snd (take k fr) @ [x] @ map snd (drop k fr))"
      unfolding f by (simp only: map_map [symmetric, of line_name snd, unfolded comp_def]
                         reset_index_rows)
    then have "set (map (\<lambda>lr. line_name (snd lr)) fr')
            = (\<lambda>lr. line_name (snd lr)) ` (set (take k fr) \<union> set (drop k fr)) \<union> {l}"
      by (auto simp: x)
    with True show ?thesis by (auto simp: set_take_drop)
  next
    case False
    with assms show ?thesis by (simp add: add_component_def)
  qed
qed

lemma additions_loop_index:
  assumes "additions_loop fr items = Inr fr'"
    and "map fst fr = default_index (length fr)
         \<or> (\<exists>a \<in> set items. fst a \<in> set (map (\<lambda>lr. line_name (snd lr)) fr))"
  shows "map fst fr' = default_index (length fr')"
  using assms
proof (induction items arbitrary: fr)
  case Nil
  then show ?case by simp
next
  case (Cons a items)
  obtain l cs where a: "a = (l, cs)" by (cases a)
  from Cons.prems(1) obtain fr1 where
    s: "add_component fr l cs = Inr fr1" and rest: "additions_loop fr1 items = Inr fr'"
    by (auto simp: a split: sum.splits)
  note r = add_component_result [OF s]
  show ?case
  proof (cases "l \<in> set (map (\<lambda>lr. line_name (snd lr)) fr)")
    case True
    with r(1) have "map fst fr1 = default_index (length fr1)" by simp
    then show ?thesis by (intro Cons.IH [OF rest]) simp
  next
    case False
    with r(2) have e: "fr1 = fr" by simp
    from Cons.prems(2) False have "map fst fr = default_index (length fr)
         \<or> (\<exists>a \<in> set items. fst a \<in> set (map (\<lambda>lr. line_name (snd lr)) fr))"
      by (auto simp: a)
    then show ?thesis by (intro Cons.IH [OF rest]) (simp add: e)
  qed
qed

lemma series_at_nat [simp]: "i < length xs \<Longrightarrow> series_at xs (int i) = Some (xs ! i)"
  by (simp add: series_at_def)

lemma set_limits_default:
  assumes "map fst fr = default_index (length fr)"
    and "length mins = length fr" and "length maxs = length fr" and "i < length fr"
  shows "snd (set_limits fr mins maxs ! i)
           = (snd (fr ! i))\<lparr>max_limits := Some (maxs ! i), min_limits := Some (mins ! i)\<rparr>"
proof -
  from assms(1,4) have "fst (fr ! i) = int i"
    by (metis default_index_def length_map nth_map nth_upt add_0)
  with assms(2-4) show ?thesis by (simp add: set_limits_def)
qed

lemma set_limits_names:
  "map (\<lambda>lr. line_name (snd lr)) (set_limits fr mins maxs) = map (\<lambda>lr. line_name (snd lr)) fr"
  by (simp add: set_limits_def)

lemma line_rows_names:
  "line_rows (map snd fr) l = length (filter (\<lambda>n. n = l) (map (\<lambda>lr. line_name (snd lr)) fr))"
  by (simp add: line_rows_def filter_map comp_def)

lemma amplitude_factor_cases:
  "component r = 1 \<and> line_rows df (line_name r) = 1 \<longrightarrow> amplitude_factor df r = 1"
  "component r = 1 \<and> 1 < line_rows df (line_name r) \<or> component r = 2
     \<longrightarrow> amplitude_factor df r = 2"
  "3 \<le> component r \<longrightarrow> amplitude_factor df r = 2 ^ nat (component r - 1)"
  "component r \<le> 0 \<longrightarrow> amplitude_factor df r = 1 / 2 ^ nat (1 - component r)"
  by (auto simp: amplitude_factor_def pow2_def)

lemma row_limits_models:
  "model r = ''Gaussian'' \<Longrightarrow> row_limits df r vars =
     Some ([Fin (parameters r ! 0 - 2 * parameters r ! 2), Fin 0, Fin 2],
           [Fin (parameters r ! 0 + 2 * parameters r ! 2),
            Fin (parameters r ! 1 * amplitude_factor df r), Fin (1.5 * parameters r ! 2)])"
  "model r = ''Lorentzian'' \<Longrightarrow> row_limits df r vars =
     Some ([Fin (parameters r ! 0 - 2 * parameters r ! 2), Fin 0, Fin (1.11 * 2)],
           [Fin (parameters r ! 0 + 2 * parameters r ! 2),
            Fin (parameters r ! 1 * amplitude_factor df r),
            Fin (1.11 * (1.5 * parameters r ! 2))])"
  "model r = ''Voigt'' \<Longrightarrow> row_limits df r vars =
     Some ([Fin (parameters r ! 0 - 2 * parameters r ! 2), Fin 0, Fin 2, Fin (1.11 * 2)],
           [Fin (parameters r ! 0 + 2 * parameters r ! 2),
            Fin (parameters r ! 1 * amplitude_factor df r), Fin (1.5 * parameters r ! 2),
            Fin (1.11 * (1.5 * parameters r ! 2))])"
  "model r = ''Continuum'' \<Longrightarrow> row_limits df r vars =
     Some ([NegInf, Fin 0, NegInf], [PosInf, PosInf, PosInf])"
  by (simp_all add: row_limits_def Let_def)


lemma update_components_parts:
  assumes "update_components dfparams additions = Inr df'"
  obtains fr mins maxs where
    "additions_loop (df_frame dfparams) additions = Inr fr"
    "minmaxlim (map snd fr) = Inr (mins, maxs)"
    "df_frame df' = set_limits fr mins maxs"
    "parameter_errors df' = None"
  using assms
  by (auto simp: update_components_def split: option.splits sum.splits)

text \<open>
  Claim C6, as amended. For a table that enters \<^verbatim>\<open>update_components\<close> with the index
  \<open>0, 1, \<dots>\<close> or receives at least one insertion, every row of the returned table
  whose model is Gaussian, Lorentzian or Voigt carries the limits of the one rule of
  \<^verbatim>\<open>minmaxlim\<close>: lower width 2.0, upper width 1.5 times the width, location within two
  widths of the centroid, amplitude between 0 and the amplitude times a factor (the
  Lorentzian width limits and the fourth Voigt limits carry the factor 1.11); a continuum
  row gets \<open>[-\<infinity>, 0, -\<infinity>]\<close> and \<open>[\<infinity>, \<infinity>, \<infinity>]\<close>. The factor is 1 for component 1 of a
  line with a single row, 2 for component 1 of a line with several rows and for every
  component 2, \<open>2 ^ (component - 1)\<close> from component 3 on, and the same power, a
  fraction, for a component numbered 0 or below.
\<close>

theorem update_components_bound_rule:
  assumes "update_components dfparams additions = Inr df'"
    and "df_index dfparams = default_index (length (df_rows dfparams))
         \<or> (\<exists>a \<in> set additions. fst a \<in> set (map line_name (df_rows dfparams)))"
  shows "\<forall>r \<in> set (df_rows df'). \<exists>factor.
    (component r = 1 \<and> length (filter (\<lambda>r'. line_name r' = line_name r) (df_rows df')) = 1
       \<longrightarrow> factor = 1)
    \<and> (component r = 1 \<and> 1 < length (filter (\<lambda>r'. line_name r' = line_name r) (df_rows df'))
         \<or> component r = 2 \<longrightarrow> factor = 2)
    \<and> (3 \<le> component r \<longrightarrow> factor = 2 ^ nat (component r - 1))
    \<and> (component r \<le> 0 \<longrightarrow> factor = 1 / 2 ^ nat (1 - component r))
    \<and> (model r = ''Gaussian'' \<longrightarrow>
       min_limits r = Some [Fin (parameters r ! 0 - 2 * parameters r ! 2), Fin 0, Fin 2]
       \<and> max_limits r = Some [Fin (parameters r ! 0 + 2 * parameters r ! 2),
            Fin (parameters r ! 1 * factor), Fin (1.5 * parameters r ! 2)])
    \<and> (model r = ''Lorentzian'' \<longrightarrow>
       min_limits r = Some [Fin (parameters r ! 0 - 2 * parameters r ! 2), Fin 0, Fin (1.11 * 2)]
       \<and> max_limits r = Some [Fin (parameters r ! 0 + 2 * parameters r ! 2),
            Fin (parameters r ! 1 * factor), Fin (1.11 * (1.5 * parameters r ! 2))])
    \<and> (model r = ''Voigt'' \<longrightarrow>
       min_limits r = Some [Fin (parameters r ! 0 - 2 * parameters r ! 2), Fin 0, Fin 2,
            Fin (1.11 * 2)]
       \<and> max_limits r = Some [Fin (parameters r ! 0 + 2 * parameters r ! 2),
            Fin (parameters r ! 1 * factor), Fin (1.5 * parameters r ! 2),
            Fin (1.11 * (1.5 * parameters r ! 2))])
    \<and> (model r = ''Continuum'' \<longrightarrow>
       min_limits r = Some [NegInf, Fin 0, NegInf]
       \<and> max_limits r = Some [PosInf, PosInf, PosInf])"
proof
  fix r
  assume r: "r \<in> set (df_rows df')"
  from assms(1) obtain fr mins maxs where
    a: "additions_loop (df_frame dfparams) additions = Inr fr"
    and m: "minmaxlim (map snd fr) = Inr (mins, maxs)"
    and d: "df_frame df' = set_limits fr mins maxs"
    by (rule update_components_parts)
  let ?rows = "map snd fr"
  have len: "length mins = length fr" "length maxs = length fr"
    using minmaxlim_result(1,2) [OF m] by simp_all
  have idx0: "map fst (df_frame dfparams) = default_index (length (df_frame dfparams))
         \<or> (\<exists>a \<in> set additions.
               fst a \<in> set (map (\<lambda>lr. line_name (snd lr)) (df_frame dfparams)))"
    using assms(2) by (simp add: df_index_def df_rows_def comp_def)
  have idx: "map fst fr = default_index (length fr)"
    using a idx0 by (rule additions_loop_index)
  have lf: "length (set_limits fr mins maxs) = length fr" by (simp add: set_limits_def)
  from r have "r \<in> set (map snd (set_limits fr mins maxs))"
    by (simp add: df_rows_def d)
  then obtain i where i: "i < length fr" and ri: "r = snd (set_limits fr mins maxs ! i)"
    by (auto simp: in_set_conv_nth lf)
  let ?r0 = "?rows ! i"
  have r': "r = ?r0\<lparr>max_limits := Some (maxs ! i), min_limits := Some (mins ! i)\<rparr>"
    using ri set_limits_default [OF idx len i] i by simp
  have sel: "model r = model ?r0" "parameters r = parameters ?r0"
    "component r = component ?r0" "line_name r = line_name ?r0"
    "min_limits r = Some (mins ! i)" "max_limits r = Some (maxs ! i)"
    by (simp_all add: r')
  have cnt: "length (filter (\<lambda>r'. line_name r' = line_name ?r0) (df_rows df'))
               = line_rows ?rows (line_name ?r0)"
  proof -
    have "length (filter (\<lambda>r'. line_name r' = line_name ?r0) (df_rows df'))
            = line_rows (map snd (set_limits fr mins maxs)) (line_name ?r0)"
      by (simp add: line_rows_def df_rows_def d)
    also have "\<dots> = line_rows ?rows (line_name ?r0)"
      by (simp only: line_rows_names set_limits_names)
    finally show ?thesis .
  qed
  have lim: "\<And>mn mx. row_limits ?rows ?r0 None = Some (mn, mx)
               \<Longrightarrow> min_limits r = Some mn \<and> max_limits r = Some mx"
    using minmaxlim_result(3) [OF m, of i] i by (simp add: sel)
  let ?f = "amplitude_factor ?rows ?r0"
  show "\<exists>factor.
    (component r = 1 \<and> length (filter (\<lambda>r'. line_name r' = line_name r) (df_rows df')) = 1
       \<longrightarrow> factor = 1)
    \<and> (component r = 1 \<and> 1 < length (filter (\<lambda>r'. line_name r' = line_name r) (df_rows df'))
         \<or> component r = 2 \<longrightarrow> factor = 2)
    \<and> (3 \<le> component r \<longrightarrow> factor = 2 ^ nat (component r - 1))
    \<and> (component r \<le> 0 \<longrightarrow> factor = 1 / 2 ^ nat (1 - component r))
    \<and> (model r = ''Gaussian'' \<longrightarrow>
       min_limits r = Some [Fin (parameters r ! 0 - 2 * parameters r ! 2), Fin 0, Fin 2]
       \<and> max_limits r = Some [Fin (parameters r ! 0 + 2 * parameters r ! 2),
            Fin (parameters r ! 1 * factor), Fin (1.5 * parameters r ! 2)])
    \<and> (model r = ''Lorentzian'' \<longrightarrow>
       min_limits r = Some [Fin (parameters r ! 0 - 2 * parameters r ! 2), Fin 0, Fin (1.11 * 2)]
       \<and> max_limits r = Some [Fin (parameters r ! 0 + 2 * parameters r ! 2),
            Fin (parameters r ! 1 * factor), Fin (1.11 * (1.5 * parameters r ! 2))])
    \<and> (model r = ''Voigt'' \<longrightarrow>
       min_limits r = Some [Fin (parameters r ! 0 - 2 * parameters r ! 2), Fin 0, Fin 2,
            Fin (1.11 * 2)]
       \<and> max_limits r = Some [Fin (parameters r ! 0 + 2 * parameters r ! 2),
            Fin (parameters r ! 1 * factor), Fin (1.5 * parameters r ! 2),
            Fin (1.11 * (1.5 * parameters r ! 2))])
    \<and> (model r = ''Continuum'' \<longrightarrow>
       min_limits r = Some [NegInf, Fin 0, NegInf]
       \<and> max_limits r = Some [PosInf, PosInf, PosInf])"
  proof (intro exI [of _ ?f] conjI)
    show "component r = 1
            \<and> length (filter (\<lambda>r'. line_name r' = line_name r) (df_rows df')) = 1
          \<longrightarrow> ?f = 1"
      using amplitude_factor_cases(1) [of ?r0 ?rows] by (simp add: cnt sel)
    show "component r = 1
            \<and> 1 < length (filter (\<lambda>r'. line_name r' = line_name r) (df_rows df'))
          \<or> component r = 2 \<longrightarrow> ?f = 2"
      using amplitude_factor_cases(2) [of ?r0 ?rows] by (simp add: cnt sel)
    show "3 \<le> component r \<longrightarrow> ?f = 2 ^ nat (component r - 1)"
      using amplitude_factor_cases(3) [of ?r0 ?rows] by (simp add: sel)
    show "component r \<le> 0 \<longrightarrow> ?f = 1 / 2 ^ nat (1 - component r)"
      using amplitude_factor_cases(4) [of ?r0 ?rows] by (simp add: sel)
    show "model r = ''Gaussian'' \<longrightarrow>
       min_limits r = Some [Fin (parameters r ! 0 - 2 * parameters r ! 2), Fin 0, Fin 2]
       \<and> max_limits r = Some [Fin (parameters r ! 0 + 2 * parameters r ! 2),
            Fin (parameters r ! 1 * ?f), Fin (1.5 * parameters r ! 2)]"
      using lim [OF row_limits_models(1)] by (simp add: sel)
    show "model r = ''Lorentzian'' \<longrightarrow>
       min_limits r = Some [Fin (parameters r ! 0 - 2 * parameters r ! 2), Fin 0, Fin (1.11 * 2)]
       \<and> max_limits r = Some [Fin (parameters r ! 0 + 2 * parameters r ! 2),
            Fin (parameters r ! 1 * ?f), Fin (1.11 * (1.5 * parameters r ! 2))]"
      using lim [OF row_limits_models(2)] by (simp add: sel)
    show "model r = ''Voigt'' \<longrightarrow>
       min_limits r = Some [Fin (parameters r ! 0 - 2 * parameters r ! 2), Fin 0, Fin 2,
            Fin (1.11 * 2)]
       \<and> max_limits r = Some [Fin (parameters r ! 0 + 2 * parameters r ! 2),
            Fin (parameters r ! 1 * ?f), Fin (1.5 * parameters r ! 2),
            Fin (1.11 * (1.5 * parameters r ! 2))]"
      using lim [OF row_limits_models(3)] by (simp add: sel)
    show "model r = ''Continuum'' \<longrightarrow>
       min_limits r = Some [NegInf, Fin 0, NegInf]
       \<and> max_limits r = Some [PosInf, PosInf, PosInf]"
      using lim [OF row_limits_models(4)] by (simp add: sel)
  qed
qed

lemma expand_fitted:
  "update_components fitted_table [(''Hb'', [''Lorentzian''])] = Inr expanded_table"
  by (simp add: update_components_def fitted_table_def expanded_table_def gaussian_row_def
        halpha_row_def continuum_row_def add_component_def slice_pos_def reset_index_def
        default_index_def upt_rec minmaxlim_def row_limits_def amplitude_factor_def
        line_rows_def set_limits_def series_at_def)

text \<open>
  The hypotheses of C6 hold on a fitted table of two lines and a continuum that receives
  a Lorentzian component for the first line: the two rows of that line get the factor 2,
  the single row of the other line the factor 1.
\<close>

theorem update_components_bound_rule_witness:
  "update_components fitted_table [(''Hb'', [''Lorentzian''])] = Inr expanded_table
   \<and> df_index fitted_table = default_index (length (df_rows fitted_table))
   \<and> map max_limits (df_rows expanded_table)
       = [Some [Fin 4867, Fin (10 * 2), Fin 4.5], Some [Fin 4867, Fin (5 * 2), Fin 4.995],
          Some [Fin 6571, Fin (8 * 1), Fin 6], Some [PosInf, PosInf, PosInf]]"
  using update_components_bound_rule
    [of fitted_table "[(''Hb'', [''Lorentzian''])]" expanded_table]
  by (simp add: expand_fitted)
     (simp add: fitted_table_def expanded_table_def df_index_def df_rows_def
        default_index_def upt_rec)

text \<open>
  Claim C6 as stated fails. A line whose single row is numbered 2 gets the factor 2: its
  amplitude ceiling is 20 for the amplitude 10. A table that arrives with the index
  \<open>1, 0\<close> and receives no insertion gets the limits of each row written on the other
  row. A row of a model outside the four, at 6563 with width 4, gets the limits of the
  row before it, around 4861. And a Lorentzian row of width 3 gets the width limits 2.22
  and 4.995, not 2.0 and 4.5.
\<close>

theorem update_components_bound_rule_counterexample:
  "update_components lone_second_table []
     = Inr \<lparr>df_frame =
              [(0, \<lparr>line_name = ''Ha'', model = ''Gaussian'', component = 2,
                    parameters = [6563, 10, 3],
                    max_limits = Some [Fin 6569, Fin 20, Fin 4.5],
                    min_limits = Some [Fin 6557, Fin 0, Fin 2]\<rparr>)],
            parameter_errors = None\<rparr>
   \<and> update_components shuffled_table []
     = Inr \<lparr>df_frame =
              [(1, \<lparr>line_name = ''Hb'', model = ''Gaussian'', component = 1,
                    parameters = [4861, 10, 3],
                    max_limits = Some [Fin 6571, Fin 8, Fin 6],
                    min_limits = Some [Fin 6555, Fin 0, Fin 2]\<rparr>),
               (0, \<lparr>line_name = ''Ha'', model = ''Gaussian'', component = 1,
                    parameters = [6563, 8, 4],
                    max_limits = Some [Fin 4867, Fin 10, Fin 4.5],
                    min_limits = Some [Fin 4855, Fin 0, Fin 2]\<rparr>)],
            parameter_errors = None\<rparr>
   \<and> update_components moffat_table []
     = Inr \<lparr>df_frame =
              [(0, \<lparr>line_name = ''Hb'', model = ''Gaussian'', component = 1,
                    parameters = [4861, 10, 3],
                    max_limits = Some [Fin 4867, Fin 10, Fin 4.5],
                    min_limits = Some [Fin 4855, Fin 0, Fin 2]\<rparr>),
               (1, \<lparr>line_name = ''Ha'', model = ''Moffat'', component = 1,
                    parameters = [6563, 8, 4],
                    max_limits = Some [Fin 4867, Fin 10, Fin 4.5],
                    min_limits = Some [Fin 4855, Fin 0, Fin 2]\<rparr>)],
            parameter_errors = None\<rparr>
   \<and> update_components lorentzian_table []
     = Inr \<lparr>df_frame =
              [(0, \<lparr>line_name = ''Ha'', model = ''Lorentzian'', component = 1,
                    parameters = [6563, 10, 3],
                    max_limits = Some [Fin 6569, Fin 10, Fin 4.995],
                    min_limits = Some [Fin 6557, Fin 0, Fin 2.22]\<rparr>)],
            parameter_errors = None\<rparr>"
  by (simp add: update_components_def lone_second_table_def shuffled_table_def sample_row_def
        moffat_table_def lorentzian_table_def
        gaussian_row_def halpha_row_def minmaxlim_def row_limits_def amplitude_factor_def
        line_rows_def set_limits_def series_at_def)

text \<open>
  Claim C5. The new row of \<^verbatim>\<open>update_components\<close> is meant to copy the parameters of
  the line's last component with the amplitude halved. The code rebuilds the vector from
  its entries 0, 1 and 2 only: after a Voigt component \<open>[6563, 10, 3, 3.33]\<close> the new
  row holds the three entries \<open>[6563, 5, 3]\<close>, and the fourth parameter is lost.
\<close>

theorem update_components_voigt_drops_gamma:
  "update_components
     \<lparr>df_frame = [(0, \<lparr>line_name = ''Ha'', model = ''Voigt'', component = 1,
                        parameters = [6563, 10, 3, 3.33],
                        max_limits = None, min_limits = None\<rparr>)],
      parameter_errors = Some [[0, 0, 0, 0]]\<rparr>
     [(''Ha'', [''Gaussian''])]
   = Inr \<lparr>df_frame =
            [(0, \<lparr>line_name = ''Ha'', model = ''Voigt'', component = 1,
                  parameters = [6563, 10, 3, 3.33],
                  max_limits = Some [Fin 6569, Fin 20, Fin 4.5, Fin 4.995],
                  min_limits = Some [Fin 6557, Fin 0, Fin 2, Fin 2.22]\<rparr>),
             (1, \<lparr>line_name = ''Ha'', model = ''Gaussian'', component = 2,
                  parameters = [6563, 5, 3],
                  max_limits = Some [Fin 6569, Fin 10, Fin 4.5],
                  min_limits = Some [Fin 6557, Fin 0, Fin 2]\<rparr>)],
          parameter_errors = None\<rparr>"
  by (simp add: update_components_def add_component_def slice_pos_def reset_index_def
        default_index_def upt_rec minmaxlim_def row_limits_def amplitude_factor_def
        line_rows_def set_limits_def series_at_def)

text \<open>
  Claim C9. A row whose model is none of Gaussian, Lorentzian, Voigt and Continuum only
  prints a message in \<^verbatim>\<open>minmaxlim\<close>; the appends that follow read \<^verbatim>\<open>min_i\<close>. When the
  row is the first of the table the name is still unbound: the call raises
  UnboundLocalError and no bounds are returned, not even for the Gaussian row after it.
\<close>

theorem minmaxlim_unknown_first_row_raises:
  "minmaxlim
     [\<lparr>line_name = ''Ha'', model = ''Moffat'', component = 1, parameters = [6563, 10, 3],
       max_limits = None, min_limits = None\<rparr>,
      \<lparr>line_name = ''Hb'', model = ''Gaussian'', component = 1, parameters = [4861, 4, 3],
       max_limits = None, min_limits = None\<rparr>]
   = Inl (UnboundLocalError ''min_i'')"
  by (simp add: minmaxlim_def row_limits_def)

text \<open>
  Claim C10. \<^verbatim>\<open>update_components\<close> drops the column \<^verbatim>\<open>'Parameter Errors'\<close> before
  anything else. On every frame without that column it raises KeyError, whatever the
  additions are; the frame that \<^verbatim>\<open>initial_dataframe\<close> returns is such a frame.
\<close>

theorem update_components_needs_error_column:
  "(parameter_errors dfparams = None \<longrightarrow>
      update_components dfparams additions = Inl (KeyError ''Parameter Errors''))
   \<and> (initial_dataframe emlines_dict filtered_linelist continuum_pars = Inr dfparams' \<longrightarrow>
      update_components dfparams' additions = Inl (KeyError ''Parameter Errors''))"
  by (auto simp: update_components_def initial_dataframe_def split: sum.splits)

theorem update_components_needs_error_column_witness:
  "initial_dataframe [] [] (Some [1, 2, 3])
     = Inr \<lparr>df_frame = [(0, continuum_row [1, 2, 3])], parameter_errors = None\<rparr>
   \<and> update_components \<lparr>df_frame = [(0, continuum_row [1, 2, 3])], parameter_errors = None\<rparr>
         [(''Ha'', [''Gaussian''])] = Inl (KeyError ''Parameter Errors'')"
  using update_components_needs_error_column
    [of "\<lparr>df_frame = [(0, continuum_row [1, 2, 3])], parameter_errors = None\<rparr>"
        "[(''Ha'', [''Gaussian''])]" "[]" "[]" "Some [1, 2, 3]"
        "\<lparr>df_frame = [(0, continuum_row [1, 2, 3])], parameter_errors = None\<rparr>"]
  by (simp add: initial_dataframe_def reset_index_def default_index_def)

end
